theory Spec2Isabelle
  imports Complex_Main "HOL-Library.Sublist"
begin

section \<open>BGRate.py: values, errors and number formatting\<close>

text \<open>
  The script is Python 2 (it imports \<open>urllib2\<close>). Its values are modelled by a small
  universe: \<open>None\<close>, integers (unbounded), floats and byte strings. A float is an IEEE
  binary64 number: a finite one is given by the rational number it is, and there are the
  negative zero, the two infinities and the not-a-number. Every operation that makes a float
  rounds the exact result to the nearest binary64 number, ties to even, as the hardware and
  the conversions of the interpreter do.
\<close>

datatype pyerror = TypeError | ValueError | AttributeError | IndexError | OverflowError
  | IOError | EnvironmentFailure string

datatype pyfloat = Fin rat | NegZero | PosInf | NegInf | NaN

datatype pyval = PNone | PInt int | PFloat pyfloat | PStr string

text \<open>Sequencing of statements that may raise: the first exception ends the computation.\<close>

definition bind_err :: "pyerror + 'a \<Rightarrow> ('a \<Rightarrow> pyerror + 'b) \<Rightarrow> pyerror + 'b" where
  "bind_err m f = (case m of Inl e \<Rightarrow> Inl e | Inr x \<Rightarrow> f x)"

subsection \<open>Binary64 rounding and multiplication\<close>

text \<open>
  \<open>round_double q\<close> is the binary64 number nearest to the rational \<open>q\<close>: 53 significant
  bits, the exponent of the leading bit between \<open>-1022\<close> and \<open>1023\<close> (below that range the
  spacing of the subnormal numbers is kept), ties to the even significand, and the infinity
  of the sign once the rounded magnitude reaches \<open>2^1024\<close>. A negative number that rounds
  to zero gives the negative zero.
\<close>

definition round_half_even :: "rat \<Rightarrow> int" where
  "round_half_even r =
     (let n = \<lfloor>r\<rfloor>; d = r - of_int n
      in if d < 1 / 2 then n else if 1 / 2 < d then n + 1 else if even n then n else n + 1)"

function exp2_down :: "rat \<Rightarrow> nat" where
  "exp2_down a = (if a < 2 then 0 else Suc (exp2_down (a / 2)))"
  by pat_completeness auto
termination
proof (relation "measure (\<lambda>a. nat \<lfloor>a\<rfloor>)")
  show "wf (measure (\<lambda>a::rat. nat \<lfloor>a\<rfloor>))" by simp
next
  fix a :: rat
  assume "\<not> a < 2"
  then have a: "2 \<le> a" by simp
  then have "a / 2 + 1 \<le> a" by simp
  then have "\<lfloor>a / 2 + 1\<rfloor> \<le> \<lfloor>a\<rfloor>" by (rule floor_mono)
  then have lt: "\<lfloor>a / 2\<rfloor> < \<lfloor>a\<rfloor>" by simp
  have nn: "0 \<le> \<lfloor>a / 2\<rfloor>" using a by simp
  have "nat \<lfloor>a / 2\<rfloor> < nat \<lfloor>a\<rfloor>" using lt nn by linarith
  then show "(a / 2, a) \<in> measure (\<lambda>a. nat \<lfloor>a\<rfloor>)" by (simp only: in_measure)
qed

function exp2_up :: "rat \<Rightarrow> nat" where
  "exp2_up a = (if a \<le> 0 \<or> 1 \<le> a then 0 else Suc (exp2_up (a * 2)))"
  by pat_completeness auto
termination
proof (relation "measure (\<lambda>a. nat \<lfloor>1 / a\<rfloor>)")
  show "wf (measure (\<lambda>a::rat. nat \<lfloor>1 / a\<rfloor>))" by simp
next
  fix a :: rat
  assume "\<not> (a \<le> 0 \<or> 1 \<le> a)"
  then have a: "0 < a" "a < 1" by simp_all
  define b where "b = 1 / a"
  have b: "1 < b" using a by (simp add: b_def)
  have eq: "1 / (a * 2) = b / 2" by (simp add: b_def)
  have one: "1 \<le> \<lfloor>b\<rfloor>" using b by simp
  have "b < of_int \<lfloor>b\<rfloor> + 1" by linarith
  moreover have "(1::rat) \<le> of_int \<lfloor>b\<rfloor>" using one by simp
  ultimately have "b / 2 < of_int \<lfloor>b\<rfloor>" by linarith
  then have lt: "\<lfloor>b / 2\<rfloor> < \<lfloor>b\<rfloor>" by (simp only: floor_less_iff)
  have nn: "0 \<le> \<lfloor>b / 2\<rfloor>" using b by simp
  have "nat \<lfloor>b / 2\<rfloor> < nat \<lfloor>b\<rfloor>" using lt nn by linarith
  then show "(a * 2, a) \<in> measure (\<lambda>a. nat \<lfloor>1 / a\<rfloor>)"
    by (simp only: in_measure eq b_def [symmetric])
qed

definition binary_exponent :: "rat \<Rightarrow> int" where
  "binary_exponent a = (if 1 \<le> a then int (exp2_down a) else - int (exp2_up a))"

definition scale2 :: "rat \<Rightarrow> int \<Rightarrow> rat" where
  "scale2 a s = (if 0 \<le> s then a * 2 ^ nat s else a / 2 ^ nat (- s))"

definition round_mag :: "rat \<Rightarrow> rat" where
  "round_mag a =
     (let e = max (binary_exponent a) (- 1022)
      in scale2 (of_int (round_half_even (scale2 a (52 - e)))) (e - 52))"

definition round_double :: "rat \<Rightarrow> pyfloat" where
  "round_double q =
     (if q = 0 then Fin 0
      else (let r = round_mag \<bar>q\<bar>
            in if 2 ^ 1024 \<le> r then (if q < 0 then NegInf else PosInf)
               else if q < 0 then (if r = 0 then NegZero else Fin (- r))
               else Fin r))"

text \<open>The product of two floats: the rules of IEEE 754 for the special values and the signs
  of zero, and the rounded exact product otherwise. It never raises.\<close>

definition is_neg :: "pyfloat \<Rightarrow> bool" where
  "is_neg x = (case x of Fin q \<Rightarrow> q < 0 | NegZero \<Rightarrow> True | NegInf \<Rightarrow> True | _ \<Rightarrow> False)"

definition is_zero :: "pyfloat \<Rightarrow> bool" where
  "is_zero x = (case x of Fin q \<Rightarrow> q = 0 | NegZero \<Rightarrow> True | _ \<Rightarrow> False)"

definition is_inf :: "pyfloat \<Rightarrow> bool" where
  "is_inf x = (case x of PosInf \<Rightarrow> True | NegInf \<Rightarrow> True | _ \<Rightarrow> False)"

definition magnitude :: "pyfloat \<Rightarrow> rat" where
  "magnitude x = (case x of Fin q \<Rightarrow> \<bar>q\<bar> | _ \<Rightarrow> 0)"

definition fmul :: "pyfloat \<Rightarrow> pyfloat \<Rightarrow> pyfloat" where
  "fmul x y =
     (if x = NaN \<or> y = NaN then NaN
      else if is_inf x \<or> is_inf y
        then (if is_zero x \<or> is_zero y then NaN
              else if is_neg x \<noteq> is_neg y then NegInf else PosInf)
      else if is_zero x \<or> is_zero y
        then (if is_neg x \<noteq> is_neg y then NegZero else Fin 0)
      else round_double ((if is_neg x \<noteq> is_neg y then - 1 else 1) * (magnitude x * magnitude y)))"

text \<open>
  \<open>10**(-k)\<close>: an integer to a negative integer power is computed as a float power, by the
  \<open>pow\<close> of the C library, which for \<open>10**(-3)\<close>, \<open>10**(-6)\<close> and \<open>10**(-9)\<close> returns the
  binary64 number nearest to the power (\<open>10**(-3) == 0.001\<close> and so on).
\<close>

definition pow10_neg :: "nat \<Rightarrow> pyfloat" where
  "pow10_neg k = round_double (1 / 10 ^ k)"

text \<open>The conversion of an integer to a float, as an arithmetic operation or a float format
  does it: the nearest binary64 number, and an error for an integer beyond the range.\<close>

definition float_of_int :: "int \<Rightarrow> pyerror + pyfloat" where
  "float_of_int i =
     (case round_double (of_int i) of
        PosInf \<Rightarrow> Inl OverflowError
      | NegInf \<Rightarrow> Inl OverflowError
      | x \<Rightarrow> Inr x)"

text \<open>The float of a value where a float is required: a string or \<open>None\<close> is a type error.\<close>

definition to_double :: "pyval \<Rightarrow> pyerror + pyfloat" where
  "to_double v =
     (case v of
        PInt i \<Rightarrow> float_of_int i
      | PFloat x \<Rightarrow> Inr x
      | PStr _ \<Rightarrow> Inl TypeError
      | PNone \<Rightarrow> Inl TypeError)"

subsection \<open>Decimal text of integers\<close>

definition digit_char :: "nat \<Rightarrow> char" where
  "digit_char d = ''0123456789'' ! (d mod 10)"

fun str_nat :: "nat \<Rightarrow> string" where
  "str_nat n = (if n < 10 then [digit_char n] else str_nat (n div 10) @ [digit_char n])"

definition str_int :: "int \<Rightarrow> string" where
  "str_int i = (if i < 0 then CHR ''-'' # str_nat (nat (- i)) else str_nat (nat i))"

subsection \<open>Float formatting: the \<open>g\<close> presentation type\<close>

text \<open>
  \<open>'%g' % x\<close> and \<open>str(x)\<close> of a float both go through the interpreter's short float
  formatting with presentation type \<open>g\<close>: the value is rounded (half to even) to \<open>P\<close>
  significant digits (the value of a float being a rational, this is exact), trailing zeros
  are dropped, and the text is laid out in fixed
  notation unless the decimal exponent \<open>X\<close> is below \<open>-4\<close> or not below the precision.
  \<open>'%g'\<close> has \<open>P = 6\<close>; \<open>str\<close> has \<open>P = 12\<close>, appends \<open>.0\<close> to a text that would read as
  an integer and switches to exponent notation one decade earlier.
\<close>

function exp10_down :: "rat \<Rightarrow> nat" where
  "exp10_down a = (if a < 10 then 0 else Suc (exp10_down (a / 10)))"
  by pat_completeness auto
termination
proof (relation "measure (\<lambda>a. nat \<lfloor>a\<rfloor>)")
  show "wf (measure (\<lambda>a::rat. nat \<lfloor>a\<rfloor>))" by simp
next
  fix a :: rat
  assume "\<not> a < 10"
  then have a: "10 \<le> a" by simp
  then have "a / 10 + 1 \<le> a" by simp
  then have "\<lfloor>a / 10 + 1\<rfloor> \<le> \<lfloor>a\<rfloor>" by (rule floor_mono)
  then have lt: "\<lfloor>a / 10\<rfloor> < \<lfloor>a\<rfloor>" by simp
  have nn: "0 \<le> \<lfloor>a / 10\<rfloor>" using a by simp
  have "nat \<lfloor>a / 10\<rfloor> < nat \<lfloor>a\<rfloor>" using lt nn by linarith
  then show "(a / 10, a) \<in> measure (\<lambda>a. nat \<lfloor>a\<rfloor>)" by (simp only: in_measure)
qed

function exp10_up :: "rat \<Rightarrow> nat" where
  "exp10_up a = (if a \<le> 0 \<or> 1 \<le> a then 0 else Suc (exp10_up (a * 10)))"
  by pat_completeness auto
termination
proof (relation "measure (\<lambda>a. nat \<lfloor>1 / a\<rfloor>)")
  show "wf (measure (\<lambda>a::rat. nat \<lfloor>1 / a\<rfloor>))" by simp
next
  fix a :: rat
  assume "\<not> (a \<le> 0 \<or> 1 \<le> a)"
  then have a: "0 < a" "a < 1" by simp_all
  define b where "b = 1 / a"
  have b: "1 < b" using a by (simp add: b_def)
  have eq: "1 / (a * 10) = b / 10" by (simp add: b_def)
  have one: "1 \<le> \<lfloor>b\<rfloor>" using b by simp
  have "b < of_int \<lfloor>b\<rfloor> + 1" by linarith
  moreover have "(1::rat) \<le> of_int \<lfloor>b\<rfloor>" using one by simp
  ultimately have "b / 10 < of_int \<lfloor>b\<rfloor>" by linarith
  then have lt: "\<lfloor>b / 10\<rfloor> < \<lfloor>b\<rfloor>" by (simp only: floor_less_iff)
  have nn: "0 \<le> \<lfloor>b / 10\<rfloor>" using b by simp
  have "nat \<lfloor>b / 10\<rfloor> < nat \<lfloor>b\<rfloor>" using lt nn by linarith
  then show "(a * 10, a) \<in> measure (\<lambda>a. nat \<lfloor>1 / a\<rfloor>)"
    by (simp only: in_measure eq b_def [symmetric])
qed

definition decimal_exponent :: "rat \<Rightarrow> int" where
  "decimal_exponent a = (if 1 \<le> a then int (exp10_down a) else - int (exp10_up a))"

definition scale10 :: "rat \<Rightarrow> int \<Rightarrow> rat" where
  "scale10 a s = (if 0 \<le> s then a * 10 ^ nat s else a / 10 ^ nat (- s))"

definition rstrip :: "string \<Rightarrow> string \<Rightarrow> string" where
  "rstrip chars s = rev (dropWhile (\<lambda>c. c \<in> set chars) (rev s))"

definition significant_digits :: "nat \<Rightarrow> rat \<Rightarrow> string \<times> int" where
  "significant_digits P a =
     (let X = decimal_exponent a;
          m = nat (round_half_even (scale10 a (int P - 1 - X)))
      in if m = 10 ^ P then (''1'', X + 1) else (rstrip ''0'' (str_nat m), X))"

definition exponent_text :: "int \<Rightarrow> string" where
  "exponent_text X =
     (if X < 0 then ''e-'' else ''e+'') @
     (if \<bar>X\<bar> < 10 then ''0'' else []) @ str_nat (nat \<bar>X\<bar>)"

definition layout :: "bool \<Rightarrow> nat \<Rightarrow> string \<Rightarrow> int \<Rightarrow> string" where
  "layout add_dot_0 P ds X =
     (let decpt = X + 1
      in if decpt \<le> - 4 \<or> decpt > (if add_dot_0 then int P - 1 else int P)
         then take 1 ds @ (if 1 < length ds then CHR ''.'' # drop 1 ds else []) @ exponent_text X
         else if decpt \<le> 0 then ''0.'' @ replicate (nat (- decpt)) CHR ''0'' @ ds
         else if int (length ds) \<le> decpt
           then ds @ replicate (nat decpt - length ds) CHR ''0'' @ (if add_dot_0 then ''.0'' else [])
         else take (nat decpt) ds @ CHR ''.'' # drop (nat decpt) ds)"

definition format_g :: "bool \<Rightarrow> nat \<Rightarrow> pyfloat \<Rightarrow> string" where
  "format_g add_dot_0 P x =
     (case x of
        PosInf \<Rightarrow> ''inf''
      | NegZero \<Rightarrow> (if add_dot_0 then ''-0.0'' else ''-0'')
      | NegInf \<Rightarrow> ''-inf''
      | NaN \<Rightarrow> ''nan''
      | Fin q \<Rightarrow>
          if q = 0 then (if add_dot_0 then ''0.0'' else ''0'')
          else (if q < 0 then ''-'' else []) @
               (case significant_digits P \<bar>q\<bar> of (ds, X) \<Rightarrow> layout add_dot_0 P ds X))"

subsection \<open>String formatting and conversion of values\<close>

text \<open>\<open>'%g' % v\<close>: the value is converted to a float first, which fails for an integer
  beyond the range and for a string or \<open>None\<close>.\<close>

definition percent_g :: "pyval \<Rightarrow> pyerror + string" where
  "percent_g v = bind_err (to_double v) (\<lambda>x. Inr (format_g False 6 x))"

text \<open>\<open>'%i' % v\<close>: a float is truncated towards zero; a string or \<open>None\<close> is a type error.\<close>

definition trunc :: "rat \<Rightarrow> int" where
  "trunc q = (if 0 \<le> q then \<lfloor>q\<rfloor> else - \<lfloor>- q\<rfloor>)"

definition percent_i :: "pyval \<Rightarrow> pyerror + string" where
  "percent_i v =
     (case v of
        PInt i \<Rightarrow> Inr (str_int i)
      | PFloat x \<Rightarrow>
          (case x of
             Fin q \<Rightarrow> Inr (str_int (trunc q))
           | NegZero \<Rightarrow> Inr (str_int 0)
           | PosInf \<Rightarrow> Inl OverflowError
           | NegInf \<Rightarrow> Inl OverflowError
           | NaN \<Rightarrow> Inl ValueError)
      | PStr _ \<Rightarrow> Inl TypeError
      | PNone \<Rightarrow> Inl TypeError)"

text \<open>\<open>str(v)\<close>, which is also what \<open>'%s' % v\<close> inserts.\<close>

definition py_str :: "pyval \<Rightarrow> string" where
  "py_str v =
     (case v of
        PNone \<Rightarrow> ''None''
      | PInt i \<Rightarrow> str_int i
      | PFloat x \<Rightarrow> format_g True 12 x
      | PStr s \<Rightarrow> s)"

text \<open>\<open>v * y\<close> for a float \<open>y\<close>: the left operand is converted to a float and the two floats
  are multiplied.\<close>

definition mul_float :: "pyval \<Rightarrow> pyfloat \<Rightarrow> pyerror + pyfloat" where
  "mul_float v y = bind_err (to_double v) (\<lambda>x. Inr (fmul x y))"

text \<open>\<open>table[k]\<close> on a list.\<close>

definition getitem :: "'a list \<Rightarrow> nat \<Rightarrow> pyerror + 'a" where
  "getitem xs k = (if k < length xs then Inr (xs ! k) else Inl IndexError)"

subsection \<open>\<open>float(s)\<close> and \<open>int(s)\<close> of a string\<close>

definition is_space :: "char \<Rightarrow> bool" where
  "is_space c = (c \<in> set [CHR '' '', CHR 0x09, CHR 0x0A, CHR 0x0B, CHR 0x0C, CHR 0x0D])"

definition is_digit :: "char \<Rightarrow> bool" where
  "is_digit c = (c \<in> set ''0123456789'')"

definition strip :: "string \<Rightarrow> string" where
  "strip s = rev (dropWhile is_space (rev (dropWhile is_space s)))"

definition digit_val :: "char \<Rightarrow> nat" where
  "digit_val c = of_char c - 48"

definition nat_of_digits :: "string \<Rightarrow> nat" where
  "nat_of_digits ds = foldl (\<lambda>n c. 10 * n + digit_val c) 0 ds"

definition ascii_lower :: "char \<Rightarrow> char" where
  "ascii_lower c =
     (case map_of (zip ''ABCDEFGHIJKLMNOPQRSTUVWXYZ'' ''abcdefghijklmnopqrstuvwxyz'') c of
        Some l \<Rightarrow> l
      | None \<Rightarrow> c)"

definition split_sign :: "string \<Rightarrow> bool \<times> string" where
  "split_sign t =
     (case t of
        [] \<Rightarrow> (False, [])
      | c # r \<Rightarrow> if c = CHR ''-'' then (True, r) else if c = CHR ''+'' then (False, r) else (False, t))"

definition parse_exponent :: "string \<Rightarrow> int option" where
  "parse_exponent t =
     (case split_sign t of
        (neg, ds) \<Rightarrow>
          if ds \<noteq> [] \<and> list_all is_digit ds
          then Some (if neg then - int (nat_of_digits ds) else int (nat_of_digits ds))
          else None)"

definition parse_decimal :: "string \<Rightarrow> rat option" where
  "parse_decimal u =
     (let ip = takeWhile is_digit u;
          r1 = dropWhile is_digit u;
          fp = (case r1 of [] \<Rightarrow> [] | c # t \<Rightarrow> if c = CHR ''.'' then takeWhile is_digit t else []);
          r2 = (case r1 of [] \<Rightarrow> [] | c # t \<Rightarrow> if c = CHR ''.'' then dropWhile is_digit t else r1);
          mant = of_nat (nat_of_digits (ip @ fp)) / 10 ^ length fp
      in if ip = [] \<and> fp = [] then None
         else (case r2 of
                 [] \<Rightarrow> Some mant
               | c # t \<Rightarrow>
                   if c = CHR ''e'' \<or> c = CHR ''E''
                   then (case parse_exponent t of None \<Rightarrow> None | Some e \<Rightarrow> Some (scale10 mant e))
                   else None))"

text \<open>The text of a number denotes a decimal; \<open>float\<close> returns the binary64 number nearest to
  it, an infinity when it is beyond the range, and a zero with the sign of the text.\<close>

definition float_of_str :: "string \<Rightarrow> pyerror + pyfloat" where
  "float_of_str s =
     (case split_sign (strip s) of
        (neg, u) \<Rightarrow>
          if map ascii_lower u = ''inf'' \<or> map ascii_lower u = ''infinity''
          then Inr (if neg then NegInf else PosInf)
          else if map ascii_lower u = ''nan'' then Inr NaN
          else (case parse_decimal u of
                  None \<Rightarrow> Inl ValueError
                | Some q \<Rightarrow>
                    Inr (if q = 0 then (if neg then NegZero else Fin 0)
                         else round_double (if neg then - q else q))))"

definition int_of_str :: "string \<Rightarrow> pyerror + int" where
  "int_of_str s =
     (case split_sign (strip s) of
        (neg, ds) \<Rightarrow>
          if ds \<noteq> [] \<and> list_all is_digit ds
          then Inr (if neg then - int (nat_of_digits ds) else int (nat_of_digits ds))
          else Inl ValueError)"

subsection \<open>\<open>re.search\<close> for the two patterns of the script\<close>

text \<open>
  Both patterns are sequences of single characters and of \<open>+\<close>-repetitions of a character
  class, one repetition being the group. The matcher is the backtracking one of \<open>re\<close>:
  a repetition takes the longest run first and gives characters back one at a time; the
  search tries every start position from the left and stops at the first match. The
  result is the text of group 1.
\<close>

datatype atom = Lit char | Cls string

datatype piece = One atom | Plus atom | GroupPlus atom

fun atom_ok :: "atom \<Rightarrow> char \<Rightarrow> bool" where
  "atom_ok (Lit l) c = (c = l)"
| "atom_ok (Cls cs) c = (c \<in> set cs)"

fun match_here :: "piece list \<Rightarrow> string \<Rightarrow> string option"
  and match_plus :: "bool \<Rightarrow> piece list \<Rightarrow> string \<Rightarrow> nat \<Rightarrow> string option" where
  "match_here [] s = Some []"
| "match_here (One a # ps) s =
     (case s of [] \<Rightarrow> None | c # t \<Rightarrow> if atom_ok a c then match_here ps t else None)"
| "match_here (Plus a # ps) s = match_plus False ps s (length (takeWhile (atom_ok a) s))"
| "match_here (GroupPlus a # ps) s = match_plus True ps s (length (takeWhile (atom_ok a) s))"
| "match_plus grp ps s 0 = None"
| "match_plus grp ps s (Suc n) =
     (case match_here ps (drop (Suc n) s) of
        Some g \<Rightarrow> Some (if grp then take (Suc n) s else g)
      | None \<Rightarrow> match_plus grp ps s n)"

fun search :: "piece list \<Rightarrow> string \<Rightarrow> string option" where
  "search ps [] = match_here ps []"
| "search ps (c # t) =
     (case match_here ps (c # t) of Some g \<Rightarrow> Some g | None \<Rightarrow> search ps t)"

text \<open>\<open>m.group(1)\<close>: \<open>search\<close> returns \<open>None\<close> when nothing matches, and \<open>None\<close> has no
  attribute \<open>group\<close>.\<close>

definition group1 :: "string option \<Rightarrow> pyerror + string" where
  "group1 m = (case m of None \<Rightarrow> Inl AttributeError | Some g \<Rightarrow> Inr g)"

text \<open>\<open>'[A-Za-z0-9-]+ ([0-9]+)'\<close>\<close>

definition radiator_re :: "piece list" where
  "radiator_re =
     [Plus (Cls ''ABCDEFGHIJKLMNOPQRSTUVWXYZabcdefghijklmnopqrstuvwxyz0123456789-''),
      One (Lit CHR '' ''),
      GroupPlus (Cls ''0123456789'')]"

text \<open>\<open>'<tr><td><b> Endpoint tagged flux sum is ([0-9.E+-]+)'\<close>\<close>

definition marker :: string where
  "marker = ''<tr><td><b> Endpoint tagged flux sum is ''"

definition flux_re :: "piece list" where
  "flux_re = map (\<lambda>c. One (Lit c)) marker @ [GroupPlus (Cls ''0123456789.E+-'')]"

section \<open>The rate calculator\<close>

text \<open>
  The eleven user-defined inputs of \<open>CalcBGRate\<close> (its keyword parameters, lines 69) are
  collected in one record; \<open>table\<close> is one row of the condition table: the run number
  followed by the six conditions.
\<close>

record config =
  beamEmittance :: pyval
  photonNbins :: pyval
  photonEmax :: pyval
  photonEmin :: pyval
  collimDistance :: pyval
  peakElow :: pyval
  peakEhigh :: pyval
  backElow :: pyval
  backEhigh :: pyval
  endpElow :: pyval
  endpEhigh :: pyval

text \<open>\<open>'&name=%g' % v\<close> and \<open>'&name=%i' % v\<close>, the shape of every parameter string.\<close>

definition param_g :: "string \<Rightarrow> pyval \<Rightarrow> pyerror + string" where
  "param_g pre v = bind_err (percent_g v) (\<lambda>t. Inr (pre @ t))"

definition param_i :: "string \<Rightarrow> pyval \<Rightarrow> pyerror + string" where
  "param_i pre v = bind_err (percent_i v) (\<lambda>t. Inr (pre @ t))"

text \<open>\<open>v.rstrip(chars)\<close>: only a string has the method.\<close>

definition rstrip_method :: "pyval \<Rightarrow> string \<Rightarrow> pyerror + string" where
  "rstrip_method v chars = (case v of PStr s \<Rightarrow> Inr (rstrip chars s) | _ \<Rightarrow> Inl AttributeError)"

text \<open>\<open>search(pattern, v)\<close>: anything but a string is a type error.\<close>

definition search_in :: "piece list \<Rightarrow> pyval \<Rightarrow> pyerror + string option" where
  "search_in re v = (case v of PStr s \<Rightarrow> Inr (search re s) | _ \<Rightarrow> Inl TypeError)"

definition finalStr :: string where
  "finalStr = ''&run=plot+collimated+beam+rate+spectrum''"

definition webAddr :: string where
  "webAddr = ''http://zeus.phys.uconn.edu/halld/cobrems/ratetool.cgi''"

text \<open>Lines 83 to 92: the converted per-run values.\<close>

definition beamCurrent :: "pyval list \<Rightarrow> pyerror + pyfloat" where
  "beamCurrent table = bind_err (getitem table 2) (\<lambda>v. mul_float v (pow10_neg 3))"

definition beamEnergy :: "pyval list \<Rightarrow> pyerror + pyfloat" where
  "beamEnergy table = bind_err (getitem table 3) (\<lambda>v. mul_float v (pow10_neg 3))"

definition photonEpeak :: "pyval list \<Rightarrow> pyerror + pyfloat" where
  "photonEpeak table = bind_err (getitem table 4) (\<lambda>v. mul_float v (pow10_neg 3))"

definition collimDiam :: "pyval list \<Rightarrow> pyerror + pyfloat" where
  "collimDiam table =
     bind_err (getitem table 5) (\<lambda>v.
     bind_err (rstrip_method v ''mm hole'') (\<lambda>s.
     bind_err (float_of_str s) (\<lambda>x. Inr (fmul x (pow10_neg 3)))))"

definition radThickness :: "pyval list \<Rightarrow> pyerror + pyfloat" where
  "radThickness table =
     bind_err (getitem table 6) (\<lambda>v.
     bind_err (search_in radiator_re v) (\<lambda>m.
     bind_err (group1 m) (\<lambda>g.
     bind_err (float_of_str g) (\<lambda>x. Inr (fmul x (pow10_neg 6))))))"

text \<open>Lines 70 to 96: the query string, built in the order of the statements.\<close>

definition conditions :: "config \<Rightarrow> pyval list \<Rightarrow> pyerror + string" where
  "conditions cfg table =
     bind_err (param_g ''&beamEmittance='' (beamEmittance cfg)) (\<lambda>beamEmittanceStr.
     bind_err (param_i ''&photonNbins='' (photonNbins cfg)) (\<lambda>photonNbinsStr.
     bind_err (param_g ''&photonEmax='' (photonEmax cfg)) (\<lambda>photonEmaxStr.
     bind_err (param_g ''&photonEmin='' (photonEmin cfg)) (\<lambda>photonEminStr.
     bind_err (param_g ''&collimDistance='' (collimDistance cfg)) (\<lambda>collimDistanceStr.
     bind_err (param_g ''&peakElow='' (peakElow cfg)) (\<lambda>peakElowStr.
     bind_err (param_g ''&peakEhigh='' (peakEhigh cfg)) (\<lambda>peakEhighStr.
     bind_err (param_g ''&backElow='' (backElow cfg)) (\<lambda>backElowStr.
     bind_err (param_g ''&backEhigh='' (backEhigh cfg)) (\<lambda>backEhighStr.
     bind_err (param_g ''&endpElow='' (endpElow cfg)) (\<lambda>endpElowStr.
     bind_err (param_g ''&endpEhigh='' (endpEhigh cfg)) (\<lambda>endpEhighStr.
     bind_err (beamCurrent table) (\<lambda>bc.
     bind_err (param_g ''&beamCurrent='' (PFloat bc)) (\<lambda>beamCurrentStr.
     bind_err (beamEnergy table) (\<lambda>be.
     bind_err (param_g ''&beamEnergy='' (PFloat be)) (\<lambda>beamEnergyStr.
     bind_err (photonEpeak table) (\<lambda>ep.
     bind_err (param_g ''&photonEpeak='' (PFloat ep)) (\<lambda>photonEpeakStr.
     bind_err (collimDiam table) (\<lambda>cd.
     bind_err (param_g ''&collimDiam='' (PFloat cd)) (\<lambda>collimDiamStr.
     bind_err (radThickness table) (\<lambda>rt.
     bind_err (param_g ''&radThickness='' (PFloat rt)) (\<lambda>radThicknessStr.
     Inr (''?'' @ beamEnergyStr @ beamCurrentStr @ beamEmittanceStr @ radThicknessStr @
          photonEpeakStr @ photonNbinsStr @ photonEmaxStr @ photonEminStr @
          collimDistanceStr @ collimDiamStr @ peakElowStr @ peakEhighStr @ backElowStr @
          backEhighStr @ endpElowStr @ endpEhighStr @ finalStr))))))))))))))))))))))"

text \<open>
  Lines 98 to 101. \<open>urlopen_read url\<close> stands for \<open>urlopen(url).read()\<close>: the body the
  service returns, or the exception of the fetch.
\<close>

definition CalcBGRate :: "(string \<Rightarrow> pyerror + string) \<Rightarrow> pyval list \<Rightarrow> config \<Rightarrow> pyerror + pyfloat" where
  "CalcBGRate urlopen_read table cfg =
     bind_err (conditions cfg table) (\<lambda>conds.
     bind_err (urlopen_read (webAddr @ conds)) (\<lambda>CBRC_page.
     bind_err (group1 (search flux_re CBRC_page)) (\<lambda>BGRate.
     bind_err (float_of_str BGRate) (\<lambda>x. Inr (fmul x (pow10_neg 9))))))"

section \<open>The script: arguments, condition table and output file\<close>

text \<open>
  The command line is given as the list of the options present, each with its destination
  name and its text, in order. Every option has the action \<open>store\<close> and no \<open>type\<close>: the
  text is stored as it is, the last occurrence wins, and an absent option keeps its default.
\<close>

record parsedArgs =
  pathToRCDB :: pyval
  minRun :: pyval
  maxRun :: pyval
  physics :: config

definition store :: "(string \<times> string) list \<Rightarrow> string \<Rightarrow> pyval \<Rightarrow> pyval" where
  "store opts dest dflt = (case map_of (rev opts) dest of Some s \<Rightarrow> PStr s | None \<Rightarrow> dflt)"

definition parse_args :: "(string \<times> string) list \<Rightarrow> parsedArgs" where
  "parse_args opts =
     \<lparr> pathToRCDB = store opts ''pathToRCDB'' PNone,
       minRun = store opts ''minRun'' PNone,
       maxRun = store opts ''maxRun'' PNone,
       physics =
         \<lparr> beamEmittance = store opts ''beamEmittance'' (PFloat (round_double (10 / 10 ^ 9))),
           photonNbins = store opts ''photonNbins'' (PInt 2000),
           photonEmax = store opts ''photonEmax'' (PInt 12),
           photonEmin = store opts ''photonEmin'' (PInt 3),
           collimDistance = store opts ''collimDistance'' (PInt 76),
           peakElow = store opts ''peakElow'' (PFloat (round_double (84 / 10))),
           peakEhigh = store opts ''peakEhigh'' (PInt 9),
           backElow = store opts ''backElow'' (PFloat (round_double (1 / 10))),
           backEhigh = store opts ''backEhigh'' (PInt 3),
           endpElow = store opts ''endpElow'' (PInt 10),
           endpEhigh = store opts ''endpEhigh'' (PFloat (round_double (117 / 10))) \<rparr> \<rparr>"

text \<open>
  The collaborators of the script: the condition database (the provider opened on a
  connection string; the selection of runs with its query, bounds and the list of
  conditions, as \<open>get_values(valueList, True)\<close> returns it), the rate service, and whether
  the output file can be opened for writing.
\<close>

record 'db environment =
  RCDBProvider :: "string \<Rightarrow> pyerror + 'db"
  select_runs_get_values :: "'db \<Rightarrow> string \<Rightarrow> int \<Rightarrow> int \<Rightarrow> string list \<Rightarrow> pyerror + pyval list list"
  urlopen_read :: "string \<Rightarrow> pyerror + string"
  open_w :: "string \<Rightarrow> bool"

definition valueList :: "string list" where
  "valueList = [''event_count'', ''beam_on_current'', ''beam_energy'', ''coherent_peak'',
                ''collimator_diameter'', ''radiator_type'']"

text \<open>\<open>"sqlite:///" + v\<close> and \<open>int(v)\<close> for an argument that is a string or \<open>None\<close>.\<close>

definition concat_str :: "string \<Rightarrow> pyval \<Rightarrow> pyerror + string" where
  "concat_str s v = (case v of PStr t \<Rightarrow> Inr (s @ t) | _ \<Rightarrow> Inl TypeError)"

definition py_int :: "pyval \<Rightarrow> pyerror + int" where
  "py_int v =
     (case v of
        PStr s \<Rightarrow> int_of_str s
      | PInt i \<Rightarrow> Inr i
      | PFloat x \<Rightarrow>
          (case x of
             Fin q \<Rightarrow> Inr (trunc q)
           | NegZero \<Rightarrow> Inr 0
           | PosInf \<Rightarrow> Inl OverflowError
           | NegInf \<Rightarrow> Inl OverflowError
           | NaN \<Rightarrow> Inl ValueError)
      | PNone \<Rightarrow> Inl TypeError)"

definition BGRate_RCDB_values :: "'db environment \<Rightarrow> parsedArgs \<Rightarrow> pyval \<Rightarrow> pyval \<Rightarrow> pyerror + pyval list list" where
  "BGRate_RCDB_values env args lo hi =
     bind_err (concat_str ''sqlite:///'' (pathToRCDB args)) (\<lambda>conn.
     bind_err (RCDBProvider env conn) (\<lambda>db.
     bind_err (py_int lo) (\<lambda>l.
     bind_err (py_int hi) (\<lambda>h.
     select_runs_get_values env db ''@is_production and @status_approved'' l h valueList))))"

definition newline :: char where
  "newline = CHR 0x0A"

definition header :: string where
  "header = ''run_number,event_count,beam_on_current,beam_energy,coherent_peak,collimator_diameter,radiator_type,BGRate'' @ [newline]"

definition fileName :: "parsedArgs \<Rightarrow> string" where
  "fileName args = ''BGRateRCDBValue_'' @ py_str (minRun args) @ ''-'' @ py_str (maxRun args) @ ''.csv''"

text \<open>Lines 113 to 115: every value of the row followed by a comma.\<close>

fun runToWrite :: "pyval list \<Rightarrow> string" where
  "runToWrite [] = []"
| "runToWrite (val # rest) = py_str val @ '','' @ runToWrite rest"

definition data_line :: "pyval list \<Rightarrow> pyfloat \<Rightarrow> string" where
  "data_line run BGRate = runToWrite run @ format_g False 6 BGRate @ [newline]"

text \<open>
  The loop of lines 111 to 116 over the rows, \<open>f\<close> being what has been written so far. An
  exception leaves the \<open>with\<close> block: the file is closed with what it holds, and the
  exception ends the script.
\<close>

fun run_loop :: "(string \<Rightarrow> pyerror + string) \<Rightarrow> config \<Rightarrow> pyval list list \<Rightarrow> string \<Rightarrow> string \<times> (pyerror + unit)" where
  "run_loop u cfg [] f = (f, Inr ())"
| "run_loop u cfg (run # rest) f =
     (case CalcBGRate u run cfg of
        Inl e \<Rightarrow> (f, Inl e)
      | Inr BGRate \<Rightarrow> run_loop u cfg rest (f @ data_line run BGRate))"

text \<open>
  The script from line 108 on, as a function of the files before it runs: the files after
  it, and how it ended. Opening for writing replaces the content of the file.
\<close>

definition main :: "'db environment \<Rightarrow> (string \<times> string) list \<Rightarrow> (string \<rightharpoonup> string) \<Rightarrow> (string \<rightharpoonup> string) \<times> (pyerror + unit)" where
  "main env opts fs =
     (let args = parse_args opts
      in if \<not> open_w env (fileName args) then (fs, Inl IOError)
         else (case BGRate_RCDB_values env args (minRun args) (maxRun args) of
                 Inl e \<Rightarrow> (fs(fileName args \<mapsto> header), Inl e)
               | Inr table \<Rightarrow>
                   (case run_loop (urlopen_read env) (physics args) table header of
                      (content, r) \<Rightarrow> (fs(fileName args \<mapsto> content), r))))"

definition exit_status :: "pyerror + unit \<Rightarrow> nat" where
  "exit_status r = (case r of Inr _ \<Rightarrow> 0 | Inl _ \<Rightarrow> 1)"

section \<open>Example inputs\<close>

text \<open>A row as the condition database returns it, and a page as the rate service returns it.\<close>

definition example_run :: "pyval list" where
  "example_run = [PInt 30000, PInt 12345, PFloat (Fin 1000), PFloat (Fin 11600),
     PFloat (Fin 8800), PStr ''5 mm hole'', PStr ''Be 750'']"

definition example_page :: string where
  "example_page = ''<html><tr><td><b> Endpoint tagged flux sum is 1.23E+05 </b></td></tr>''"

text \<open>The destinations of the eleven options of lines 33 to 43.\<close>

definition physics_dests :: "string list" where
  "physics_dests = [''beamEmittance'', ''photonNbins'', ''photonEmax'', ''photonEmin'',
     ''collimDistance'', ''peakElow'', ''peakEhigh'', ''backElow'', ''backEhigh'', ''endpElow'',
     ''endpEhigh'']"

text \<open>A condition database with the one example row, a rate service that returns the
  example page, a file system that lets the output file be opened, and a command line.\<close>

definition example_env :: "unit environment" where
  "example_env =
     \<lparr> RCDBProvider = (\<lambda>conn. Inr ()),
       select_runs_get_values = (\<lambda>db query lo hi names. Inr [example_run]),
       urlopen_read = (\<lambda>url. Inr example_page),
       open_w = (\<lambda>name. True) \<rparr>"

definition example_opts :: "(string \<times> string) list" where
  "example_opts = [(''pathToRCDB'', ''rcdb.sqlite''), (''minRun'', ''30000''), (''maxRun'', ''30010'')]"

definition empty_env :: "unit environment" where
  "empty_env = example_env \<lparr> select_runs_get_values := (\<lambda>db query lo hi names. Inr []) \<rparr>"

section \<open>Basic facts\<close>

lemma bind_err_Inr [simp]: "bind_err (Inr x) f = f x" by (simp add: bind_err_def)
lemma bind_err_Inl [simp]: "bind_err (Inl e) f = Inl e" by (simp add: bind_err_def)
lemma bind_err_eq_Inr: "bind_err m f = Inr y \<longleftrightarrow> (\<exists>x. m = Inr x \<and> f x = Inr y)"
  by (cases m) simp_all
lemma to_double_simps [simp]:
  "to_double (PFloat x) = Inr x" "to_double (PStr s) = Inl TypeError" "to_double PNone = Inl TypeError"
  by (simp_all add: to_double_def)
lemma param_g_Inr: "param_g pre v = Inr s \<longleftrightarrow> (\<exists>t. percent_g v = Inr t \<and> s = pre @ t)"
  by (auto simp: param_g_def bind_err_eq_Inr)
lemma param_i_Inr: "param_i pre v = Inr s \<longleftrightarrow> (\<exists>t. percent_i v = Inr t \<and> s = pre @ t)"
  by (auto simp: param_i_def bind_err_eq_Inr)
lemma percent_g_PFloat: "percent_g (PFloat x) = Inr (format_g False 6 x)"
  by (simp add: percent_g_def)
lemma param_g_PFloat [simp]: "param_g pre (PFloat x) = Inr (pre @ format_g False 6 x)"
  by (simp add: param_g_def percent_g_def)

lemma bind_err_InrE: "bind_err m f = Inr y \<Longrightarrow> (\<And>x. m = Inr x \<Longrightarrow> f x = Inr y \<Longrightarrow> P) \<Longrightarrow> P"
  by (cases m) simp_all
lemma param_g_InrE: "param_g pre v = Inr s \<Longrightarrow> (\<And>t. percent_g v = Inr t \<Longrightarrow> s = pre @ t \<Longrightarrow> P) \<Longrightarrow> P"
  by (auto simp: param_g_Inr)
lemma param_i_InrE: "param_i pre v = Inr s \<Longrightarrow> (\<And>t. percent_i v = Inr t \<Longrightarrow> s = pre @ t \<Longrightarrow> P) \<Longrightarrow> P"
  by (auto simp: param_i_Inr)
lemma conditions_Inr_D:
  "conditions cfg table = Inr conds \<Longrightarrow>
   (\<exists>s1 s2 s3 s4 s5 s6 s7 s8 s9 s10 s11 bc be ep cd rt.
      percent_g (beamEmittance cfg) = Inr s1 \<and> percent_i (photonNbins cfg) = Inr s2 \<and>
      percent_g (photonEmax cfg) = Inr s3 \<and> percent_g (photonEmin cfg) = Inr s4 \<and>
      percent_g (collimDistance cfg) = Inr s5 \<and> percent_g (peakElow cfg) = Inr s6 \<and>
      percent_g (peakEhigh cfg) = Inr s7 \<and> percent_g (backElow cfg) = Inr s8 \<and>
      percent_g (backEhigh cfg) = Inr s9 \<and> percent_g (endpElow cfg) = Inr s10 \<and>
      percent_g (endpEhigh cfg) = Inr s11 \<and>
      beamCurrent table = Inr bc \<and> beamEnergy table = Inr be \<and> photonEpeak table = Inr ep \<and>
      collimDiam table = Inr cd \<and> radThickness table = Inr rt \<and>
      conds = ''?'' @ ''&beamEnergy='' @ format_g False 6 be @ ''&beamCurrent='' @ format_g False 6 bc @
        ''&beamEmittance='' @ s1 @ ''&radThickness='' @ format_g False 6 rt @
        ''&photonEpeak='' @ format_g False 6 ep @ ''&photonNbins='' @ s2 @
        ''&photonEmax='' @ s3 @ ''&photonEmin='' @ s4 @ ''&collimDistance='' @ s5 @
        ''&collimDiam='' @ format_g False 6 cd @ ''&peakElow='' @ s6 @ ''&peakEhigh='' @ s7 @
        ''&backElow='' @ s8 @ ''&backEhigh='' @ s9 @ ''&endpElow='' @ s10 @
        ''&endpEhigh='' @ s11 @ finalStr)"
  unfolding conditions_def
  by (elim bind_err_InrE param_g_InrE param_i_InrE) (simp add: percent_g_def)

lemma conditions_eq:
  assumes "percent_g (beamEmittance cfg) = Inr s1" "percent_i (photonNbins cfg) = Inr s2"
    "percent_g (photonEmax cfg) = Inr s3" "percent_g (photonEmin cfg) = Inr s4"
    "percent_g (collimDistance cfg) = Inr s5" "percent_g (peakElow cfg) = Inr s6"
    "percent_g (peakEhigh cfg) = Inr s7" "percent_g (backElow cfg) = Inr s8"
    "percent_g (backEhigh cfg) = Inr s9" "percent_g (endpElow cfg) = Inr s10"
    "percent_g (endpEhigh cfg) = Inr s11"
    and "beamCurrent table = Inr bc" "beamEnergy table = Inr be" "photonEpeak table = Inr ep"
    and "collimDiam table = Inr cd" "radThickness table = Inr rt"
  shows "conditions cfg table = Inr (''?'' @ ''&beamEnergy='' @ format_g False 6 be @
        ''&beamCurrent='' @ format_g False 6 bc @
        ''&beamEmittance='' @ s1 @ ''&radThickness='' @ format_g False 6 rt @
        ''&photonEpeak='' @ format_g False 6 ep @ ''&photonNbins='' @ s2 @
        ''&photonEmax='' @ s3 @ ''&photonEmin='' @ s4 @ ''&collimDistance='' @ s5 @
        ''&collimDiam='' @ format_g False 6 cd @ ''&peakElow='' @ s6 @ ''&peakEhigh='' @ s7 @
        ''&backElow='' @ s8 @ ''&backEhigh='' @ s9 @ ''&endpElow='' @ s10 @
        ''&endpEhigh='' @ s11 @ finalStr)"
  unfolding conditions_def param_g_def param_i_def
  by (simp add: assms percent_g_PFloat)

lemma replicate_numeral_unfold: "replicate (numeral k) x = x # replicate (pred_numeral k) x"
  by (simp add: numeral_eq_Suc)

lemma floor_rat_numeral: "\<lfloor>numeral a / numeral b :: rat\<rfloor> = numeral a div numeral b"
  using floor_divide_of_int_eq [of "numeral a" "numeral b", where ?'a = rat] by simp

lemmas dbl_defs = floor_rat_numeral round_double_def round_mag_def binary_exponent_def scale2_def
  round_half_even_def Let_def fmul_def is_neg_def is_zero_def is_inf_def magnitude_def

lemmas fmt_defs = format_g_def significant_digits_def decimal_exponent_def round_half_even_def
  scale10_def layout_def rstrip_def digit_char_def exponent_text_def Let_def
  replicate_numeral_unfold str_int_def floor_rat_numeral

lemmas parse_defs = float_of_str_def strip_def is_space_def split_sign_def ascii_lower_def
  parse_decimal_def is_digit_def nat_of_digits_def digit_val_def parse_exponent_def scale10_def
  Let_def int_of_str_def

text \<open>The three powers of ten, and the products and texts of the example row.\<close>

lemma pow10_neg_3: "pow10_neg 3 = Fin (1152921504606847 / 2 ^ 60)"
  by (simp add: pow10_neg_def dbl_defs)
lemma pow10_neg_6: "pow10_neg 6 = Fin (4722366482869645 / 2 ^ 72)"
  by (simp add: pow10_neg_def dbl_defs)
lemma pow10_neg_9: "pow10_neg 9 = Fin (4835703278458517 / 2 ^ 82)"
  by (simp add: pow10_neg_def dbl_defs)

lemma fmul_1000: "fmul (Fin 1000) (pow10_neg 3) = Fin 1"
  by (simp add: pow10_neg_3 dbl_defs)
lemma fmul_11600: "fmul (Fin 11600) (pow10_neg 3) = Fin (6530219459687219 / 2 ^ 49)"
  by (simp add: pow10_neg_3 dbl_defs)
lemma fmul_8800: "fmul (Fin 8800) (pow10_neg 3) = Fin (2476979795053773 / 2 ^ 48)"
  by (simp add: pow10_neg_3 dbl_defs)

lemma example_beamCurrent: "beamCurrent example_run = Inr (Fin 1)"
  by (simp add: beamCurrent_def example_run_def getitem_def mul_float_def fmul_1000)
lemma example_beamEnergy: "beamEnergy example_run = Inr (Fin (6530219459687219 / 2 ^ 49))"
  by (simp add: beamEnergy_def example_run_def getitem_def mul_float_def fmul_11600)
lemma example_photonEpeak: "photonEpeak example_run = Inr (Fin (2476979795053773 / 2 ^ 48))"
  by (simp add: photonEpeak_def example_run_def getitem_def mul_float_def fmul_8800)
lemma example_collimDiam: "collimDiam example_run = Inr (Fin (5764607523034235 / 2 ^ 60))"
  by (simp add: collimDiam_def example_run_def getitem_def rstrip_method_def rstrip_def
      parse_defs pow10_neg_3 dbl_defs)
lemma example_radThickness: "radThickness example_run = Inr (Fin (3458764513820541 / 2 ^ 62))"
  by (simp add: radThickness_def example_run_def getitem_def search_in_def group1_def
      radiator_re_def parse_defs pow10_neg_6 dbl_defs)

lemma g_1: "format_g False 6 (Fin 1) = ''1''" by (simp add: fmt_defs)
lemma g_116: "format_g False 6 (Fin (6530219459687219 / 2 ^ 49)) = ''11.6''" by (simp add: fmt_defs)
lemma g_88: "format_g False 6 (Fin (2476979795053773 / 2 ^ 48)) = ''8.8''" by (simp add: fmt_defs)
lemma g_0005: "format_g False 6 (Fin (5764607523034235 / 2 ^ 60)) = ''0.005''" by (simp add: fmt_defs)
lemma g_000075: "format_g False 6 (Fin (3458764513820541 / 2 ^ 62)) = ''0.00075''" by (simp add: fmt_defs)

lemma default_floats:
  "round_double (10 / 10 ^ 9) = Fin (3022314549036573 / 2 ^ 78)"
  "round_double (84 / 10) = Fin (4728779608739021 / 2 ^ 49)"
  "round_double (1 / 10) = Fin (3602879701896397 / 2 ^ 55)"
  "round_double (117 / 10) = Fin (3293257227514675 / 2 ^ 48)"
  "round_double (1 / 100000000) = Fin (3022314549036573 / 2 ^ 78)"
  "round_double (42 / 5) = Fin (4728779608739021 / 2 ^ 49)"
  by (simp_all add: dbl_defs)

lemma float_of_int_small:
  "float_of_int 12 = Inr (Fin 12)" "float_of_int 3 = Inr (Fin 3)" "float_of_int 76 = Inr (Fin 76)"
  "float_of_int 9 = Inr (Fin 9)" "float_of_int 10 = Inr (Fin 10)"
  "float_of_int 1000 = Inr (Fin 1000)" "float_of_int 1000000 = Inr (Fin 1000000)"
  by (simp_all add: float_of_int_def dbl_defs)

lemma default_config_strings:
  "percent_g (beamEmittance (physics (parse_args []))) = Inr ''1e-08''"
  "percent_i (photonNbins (physics (parse_args []))) = Inr ''2000''"
  "percent_g (photonEmax (physics (parse_args []))) = Inr ''12''"
  "percent_g (photonEmin (physics (parse_args []))) = Inr ''3''"
  "percent_g (collimDistance (physics (parse_args []))) = Inr ''76''"
  "percent_g (peakElow (physics (parse_args []))) = Inr ''8.4''"
  "percent_g (peakEhigh (physics (parse_args []))) = Inr ''9''"
  "percent_g (backElow (physics (parse_args []))) = Inr ''0.1''"
  "percent_g (backEhigh (physics (parse_args []))) = Inr ''3''"
  "percent_g (endpElow (physics (parse_args []))) = Inr ''10''"
  "percent_g (endpEhigh (physics (parse_args []))) = Inr ''11.7''"
  by (simp_all add: parse_args_def store_def percent_g_def percent_i_def to_double_def
      float_of_int_small default_floats fmt_defs)

lemma example_conditions:
  "conditions (physics (parse_args [])) example_run =
   Inr ''?&beamEnergy=11.6&beamCurrent=1&beamEmittance=1e-08&radThickness=0.00075&photonEpeak=8.8&photonNbins=2000&photonEmax=12&photonEmin=3&collimDistance=76&collimDiam=0.005&peakElow=8.4&peakEhigh=9&backElow=0.1&backEhigh=3&endpElow=10&endpEhigh=11.7&run=plot+collimated+beam+rate+spectrum''"
  by (simp only: conditions_eq [OF default_config_strings example_beamCurrent example_beamEnergy
        example_photonEpeak example_collimDiam example_radThickness]
      g_1 g_116 g_88 g_0005 g_000075 finalStr_def) simp

lemma getitem_Inr: "getitem xs k = Inr v \<longleftrightarrow> k < length xs \<and> v = xs ! k"
  by (auto simp: getitem_def)

lemma mul_float_Inr: "mul_float v y = Inr z \<longleftrightarrow> (\<exists>x. to_double v = Inr x \<and> z = fmul x y)"
  by (auto simp: mul_float_def bind_err_eq_Inr)

lemma beamCurrent_Inr: "beamCurrent table = Inr bc \<longleftrightarrow> 2 < length table \<and> mul_float (table ! 2) (pow10_neg 3) = Inr bc"
  by (auto simp: beamCurrent_def bind_err_eq_Inr getitem_Inr)
lemma beamEnergy_Inr: "beamEnergy table = Inr be \<longleftrightarrow> 3 < length table \<and> mul_float (table ! 3) (pow10_neg 3) = Inr be"
  by (auto simp: beamEnergy_def bind_err_eq_Inr getitem_Inr)
lemma photonEpeak_Inr: "photonEpeak table = Inr ep \<longleftrightarrow> 4 < length table \<and> mul_float (table ! 4) (pow10_neg 3) = Inr ep"
  by (auto simp: photonEpeak_def bind_err_eq_Inr getitem_Inr)

lemma radThickness_length: "radThickness table = Inr rt \<Longrightarrow> 6 < length table"
  unfolding radThickness_def by (erule bind_err_InrE) (simp add: getitem_Inr)

section \<open>The claims\<close>

text \<open>
  Claim C6. For every row whose beam current (field 2), beam energy (field 3) and
  coherent-peak energy (field 4) are numbers, each of the three is multiplied as a float by
  \<open>10**(-3)\<close>, the binary64 number nearest to one thousandth, and does not fail; when the
  two text fields of the row parse and the user inputs can be formatted, the query string is
  built, with exactly the \<open>%g\<close> text of the three products after \<open>&beamCurrent=\<close>,
  \<open>&beamEnergy=\<close> and \<open>&photonEpeak=\<close>. A beam current of 1000, integer or float, gives
  the product 1, written as \<open>1\<close>.
\<close>

theorem C6_unit_conversion:
  assumes "to_double (table ! 2) = Inr x2" "to_double (table ! 3) = Inr x3"
    "to_double (table ! 4) = Inr x4"
    and "collimDiam table = Inr cd" "radThickness table = Inr rt"
    and "percent_g (beamEmittance cfg) = Inr s1" "percent_i (photonNbins cfg) = Inr s2"
    "percent_g (photonEmax cfg) = Inr s3" "percent_g (photonEmin cfg) = Inr s4"
    "percent_g (collimDistance cfg) = Inr s5" "percent_g (peakElow cfg) = Inr s6"
    "percent_g (peakEhigh cfg) = Inr s7" "percent_g (backElow cfg) = Inr s8"
    "percent_g (backEhigh cfg) = Inr s9" "percent_g (endpElow cfg) = Inr s10"
    "percent_g (endpEhigh cfg) = Inr s11"
  shows "beamCurrent table = Inr (fmul x2 (pow10_neg 3)) \<and>
     beamEnergy table = Inr (fmul x3 (pow10_neg 3)) \<and>
     photonEpeak table = Inr (fmul x4 (pow10_neg 3)) \<and>
     conditions cfg table = Inr (''?'' @ ''&beamEnergy='' @ format_g False 6 (fmul x3 (pow10_neg 3)) @
        ''&beamCurrent='' @ format_g False 6 (fmul x2 (pow10_neg 3)) @
        ''&beamEmittance='' @ s1 @ ''&radThickness='' @ format_g False 6 rt @
        ''&photonEpeak='' @ format_g False 6 (fmul x4 (pow10_neg 3)) @ ''&photonNbins='' @ s2 @
        ''&photonEmax='' @ s3 @ ''&photonEmin='' @ s4 @ ''&collimDistance='' @ s5 @
        ''&collimDiam='' @ format_g False 6 cd @ ''&peakElow='' @ s6 @ ''&peakEhigh='' @ s7 @
        ''&backElow='' @ s8 @ ''&backEhigh='' @ s9 @ ''&endpElow='' @ s10 @
        ''&endpEhigh='' @ s11 @ finalStr) \<and>
     pow10_neg 3 = round_double (1 / 1000) \<and>
     mul_float (PFloat (Fin 1000)) (pow10_neg 3) = Inr (Fin 1) \<and>
     mul_float (PInt 1000) (pow10_neg 3) = Inr (Fin 1) \<and>
     format_g False 6 (Fin 1) = ''1''"
proof -
  have len: "6 < length table" using assms(5) by (rule radThickness_length)
  have bc: "beamCurrent table = Inr (fmul x2 (pow10_neg 3))"
    using len assms(1) by (simp add: beamCurrent_def getitem_def mul_float_def)
  have be: "beamEnergy table = Inr (fmul x3 (pow10_neg 3))"
    using len assms(2) by (simp add: beamEnergy_def getitem_def mul_float_def)
  have ep: "photonEpeak table = Inr (fmul x4 (pow10_neg 3))"
    using len assms(3) by (simp add: photonEpeak_def getitem_def mul_float_def)
  have conds: "conditions cfg table = Inr (''?'' @ ''&beamEnergy='' @ format_g False 6 (fmul x3 (pow10_neg 3)) @
        ''&beamCurrent='' @ format_g False 6 (fmul x2 (pow10_neg 3)) @
        ''&beamEmittance='' @ s1 @ ''&radThickness='' @ format_g False 6 rt @
        ''&photonEpeak='' @ format_g False 6 (fmul x4 (pow10_neg 3)) @ ''&photonNbins='' @ s2 @
        ''&photonEmax='' @ s3 @ ''&photonEmin='' @ s4 @ ''&collimDistance='' @ s5 @
        ''&collimDiam='' @ format_g False 6 cd @ ''&peakElow='' @ s6 @ ''&peakEhigh='' @ s7 @
        ''&backElow='' @ s8 @ ''&backEhigh='' @ s9 @ ''&endpElow='' @ s10 @
        ''&endpEhigh='' @ s11 @ finalStr)"
    by (rule conditions_eq [OF assms(6-16) bc be ep assms(4,5)])
  have p: "pow10_neg 3 = round_double (1 / 1000)" by (simp add: pow10_neg_def)
  have m1: "mul_float (PFloat (Fin 1000)) (pow10_neg 3) = Inr (Fin 1)"
    by (simp add: mul_float_def fmul_1000)
  have m2: "mul_float (PInt 1000) (pow10_neg 3) = Inr (Fin 1)"
    by (simp add: mul_float_def to_double_def float_of_int_small fmul_1000)
  from bc be ep conds p m1 m2 g_1 show ?thesis by (intro conjI) assumption+
qed

theorem C6_unit_conversion_witness:
  "beamCurrent example_run = Inr (Fin 1) \<and>
   conditions (physics (parse_args [])) example_run = Inr ''?&beamEnergy=11.6&beamCurrent=1&beamEmittance=1e-08&radThickness=0.00075&photonEpeak=8.8&photonNbins=2000&photonEmax=12&photonEmin=3&collimDistance=76&collimDiam=0.005&peakElow=8.4&peakEhigh=9&backElow=0.1&backEhigh=3&endpElow=10&endpEhigh=11.7&run=plot+collimated+beam+rate+spectrum''"
proof -
  have n: "to_double (example_run ! 2) = Inr (Fin 1000)"
    "to_double (example_run ! 3) = Inr (Fin 11600)" "to_double (example_run ! 4) = Inr (Fin 8800)"
    by (simp_all add: example_run_def)
  note c6 = C6_unit_conversion [OF n example_collimDiam example_radThickness default_config_strings]
  from c6 show ?thesis
    by (simp only: fmul_1000 fmul_11600 fmul_8800 g_1 g_116 g_88 g_0005 g_000075 finalStr_def) simp
qed

lemma CalcBGRate_fetch:
  "conditions cfg table = Inr conds \<Longrightarrow>
   CalcBGRate u table cfg =
     bind_err (u (webAddr @ conds)) (\<lambda>page.
     bind_err (group1 (search flux_re page)) (\<lambda>g.
     bind_err (float_of_str g) (\<lambda>x. Inr (fmul x (pow10_neg 9)))))"
  by (simp add: CalcBGRate_def)

lemma example_conditions_Nbins:
  "conditions ((physics (parse_args [])) \<lparr>photonNbins := PInt 1000000\<rparr>) example_run =
     Inr ''?&beamEnergy=11.6&beamCurrent=1&beamEmittance=1e-08&radThickness=0.00075&photonEpeak=8.8&photonNbins=1000000&photonEmax=12&photonEmin=3&collimDistance=76&collimDiam=0.005&peakElow=8.4&peakEhigh=9&backElow=0.1&backEhigh=3&endpElow=10&endpEhigh=11.7&run=plot+collimated+beam+rate+spectrum''"
proof -
  have cfg: "percent_g (beamEmittance ((physics (parse_args [])) \<lparr>photonNbins := PInt 1000000\<rparr>)) = Inr ''1e-08''"
    "percent_i (photonNbins ((physics (parse_args [])) \<lparr>photonNbins := PInt 1000000\<rparr>)) = Inr ''1000000''"
    "percent_g (photonEmax ((physics (parse_args [])) \<lparr>photonNbins := PInt 1000000\<rparr>)) = Inr ''12''"
    "percent_g (photonEmin ((physics (parse_args [])) \<lparr>photonNbins := PInt 1000000\<rparr>)) = Inr ''3''"
    "percent_g (collimDistance ((physics (parse_args [])) \<lparr>photonNbins := PInt 1000000\<rparr>)) = Inr ''76''"
    "percent_g (peakElow ((physics (parse_args [])) \<lparr>photonNbins := PInt 1000000\<rparr>)) = Inr ''8.4''"
    "percent_g (peakEhigh ((physics (parse_args [])) \<lparr>photonNbins := PInt 1000000\<rparr>)) = Inr ''9''"
    "percent_g (backElow ((physics (parse_args [])) \<lparr>photonNbins := PInt 1000000\<rparr>)) = Inr ''0.1''"
    "percent_g (backEhigh ((physics (parse_args [])) \<lparr>photonNbins := PInt 1000000\<rparr>)) = Inr ''3''"
    "percent_g (endpElow ((physics (parse_args [])) \<lparr>photonNbins := PInt 1000000\<rparr>)) = Inr ''10''"
    "percent_g (endpEhigh ((physics (parse_args [])) \<lparr>photonNbins := PInt 1000000\<rparr>)) = Inr ''11.7''"
    using default_config_strings by (simp_all add: percent_i_def str_int_def digit_char_def)
  show ?thesis
    by (simp only: conditions_eq [OF cfg example_beamCurrent example_beamEnergy
          example_photonEpeak example_collimDiam example_radThickness]
        g_1 g_116 g_88 g_0005 g_000075 finalStr_def) simp
qed

text \<open>
  Claim C2, as amended. Whenever the query string is built, it is the base endpoint, \<open>?\<close>, the
  sixteen parameters with their fixed names in the fixed order, and the trailing directive.
  The five per-run values (converted) and ten of the eleven user inputs are written with
  \<open>%g\<close>; the number of bins is written with \<open>%i\<close>. The rate service is fetched at this URL
  and the result depends on nothing else of the service.
\<close>

theorem C2_query_string:
  assumes "conditions cfg table = Inr conds"
  shows "(\<exists>s1 s2 s3 s4 s5 s6 s7 s8 s9 s10 s11 bc be ep cd rt.
      percent_g (beamEmittance cfg) = Inr s1 \<and> percent_i (photonNbins cfg) = Inr s2 \<and>
      percent_g (photonEmax cfg) = Inr s3 \<and> percent_g (photonEmin cfg) = Inr s4 \<and>
      percent_g (collimDistance cfg) = Inr s5 \<and> percent_g (peakElow cfg) = Inr s6 \<and>
      percent_g (peakEhigh cfg) = Inr s7 \<and> percent_g (backElow cfg) = Inr s8 \<and>
      percent_g (backEhigh cfg) = Inr s9 \<and> percent_g (endpElow cfg) = Inr s10 \<and>
      percent_g (endpEhigh cfg) = Inr s11 \<and>
      beamCurrent table = Inr bc \<and> beamEnergy table = Inr be \<and> photonEpeak table = Inr ep \<and>
      collimDiam table = Inr cd \<and> radThickness table = Inr rt \<and>
      webAddr @ conds =
        ''http://zeus.phys.uconn.edu/halld/cobrems/ratetool.cgi?'' @
        ''&beamEnergy='' @ format_g False 6 be @ ''&beamCurrent='' @ format_g False 6 bc @
        ''&beamEmittance='' @ s1 @ ''&radThickness='' @ format_g False 6 rt @
        ''&photonEpeak='' @ format_g False 6 ep @ ''&photonNbins='' @ s2 @
        ''&photonEmax='' @ s3 @ ''&photonEmin='' @ s4 @ ''&collimDistance='' @ s5 @
        ''&collimDiam='' @ format_g False 6 cd @ ''&peakElow='' @ s6 @ ''&peakEhigh='' @ s7 @
        ''&backElow='' @ s8 @ ''&backEhigh='' @ s9 @ ''&endpElow='' @ s10 @
        ''&endpEhigh='' @ s11 @ ''&run=plot+collimated+beam+rate+spectrum'') \<and>
     (\<forall>u u'. u (webAddr @ conds) = u' (webAddr @ conds) \<longrightarrow>
        CalcBGRate u table cfg = CalcBGRate u' table cfg)"
proof -
  from conditions_Inr_D [OF assms] obtain s1 s2 s3 s4 s5 s6 s7 s8 s9 s10 s11 bc be ep cd rt where
    h: "percent_g (beamEmittance cfg) = Inr s1" "percent_i (photonNbins cfg) = Inr s2"
      "percent_g (photonEmax cfg) = Inr s3" "percent_g (photonEmin cfg) = Inr s4"
      "percent_g (collimDistance cfg) = Inr s5" "percent_g (peakElow cfg) = Inr s6"
      "percent_g (peakEhigh cfg) = Inr s7" "percent_g (backElow cfg) = Inr s8"
      "percent_g (backEhigh cfg) = Inr s9" "percent_g (endpElow cfg) = Inr s10"
      "percent_g (endpEhigh cfg) = Inr s11"
      "beamCurrent table = Inr bc" "beamEnergy table = Inr be" "photonEpeak table = Inr ep"
      "collimDiam table = Inr cd" "radThickness table = Inr rt" and
    conds: "conds = ''?'' @ ''&beamEnergy='' @ format_g False 6 be @ ''&beamCurrent='' @ format_g False 6 bc @
        ''&beamEmittance='' @ s1 @ ''&radThickness='' @ format_g False 6 rt @
        ''&photonEpeak='' @ format_g False 6 ep @ ''&photonNbins='' @ s2 @
        ''&photonEmax='' @ s3 @ ''&photonEmin='' @ s4 @ ''&collimDistance='' @ s5 @
        ''&collimDiam='' @ format_g False 6 cd @ ''&peakElow='' @ s6 @ ''&peakEhigh='' @ s7 @
        ''&backElow='' @ s8 @ ''&backEhigh='' @ s9 @ ''&endpElow='' @ s10 @
        ''&endpEhigh='' @ s11 @ finalStr"
    by blast
  have url: "webAddr @ conds =
        ''http://zeus.phys.uconn.edu/halld/cobrems/ratetool.cgi?'' @
        ''&beamEnergy='' @ format_g False 6 be @ ''&beamCurrent='' @ format_g False 6 bc @
        ''&beamEmittance='' @ s1 @ ''&radThickness='' @ format_g False 6 rt @
        ''&photonEpeak='' @ format_g False 6 ep @ ''&photonNbins='' @ s2 @
        ''&photonEmax='' @ s3 @ ''&photonEmin='' @ s4 @ ''&collimDistance='' @ s5 @
        ''&collimDiam='' @ format_g False 6 cd @ ''&peakElow='' @ s6 @ ''&peakEhigh='' @ s7 @
        ''&backElow='' @ s8 @ ''&backEhigh='' @ s9 @ ''&endpElow='' @ s10 @
        ''&endpEhigh='' @ s11 @ ''&run=plot+collimated+beam+rate+spectrum''"
    unfolding conds webAddr_def finalStr_def by simp
  have fetch: "\<forall>u u'. u (webAddr @ conds) = u' (webAddr @ conds) \<longrightarrow>
        CalcBGRate u table cfg = CalcBGRate u' table cfg"
    by (simp add: CalcBGRate_fetch [OF assms])
  from h url fetch show ?thesis by (intro conjI exI) assumption+
qed

theorem C2_query_string_witness:
  "conditions (physics (parse_args [])) example_run = Inr ''?&beamEnergy=11.6&beamCurrent=1&beamEmittance=1e-08&radThickness=0.00075&photonEpeak=8.8&photonNbins=2000&photonEmax=12&photonEmin=3&collimDistance=76&collimDiam=0.005&peakElow=8.4&peakEhigh=9&backElow=0.1&backEhigh=3&endpElow=10&endpEhigh=11.7&run=plot+collimated+beam+rate+spectrum'' \<and>
   CalcBGRate (\<lambda>url. if url = webAddr @ ''?&beamEnergy=11.6&beamCurrent=1&beamEmittance=1e-08&radThickness=0.00075&photonEpeak=8.8&photonNbins=2000&photonEmax=12&photonEmin=3&collimDistance=76&collimDiam=0.005&peakElow=8.4&peakEhigh=9&backElow=0.1&backEhigh=3&endpElow=10&endpEhigh=11.7&run=plot+collimated+beam+rate+spectrum'' then Inr example_page else Inl IOError)
     example_run (physics (parse_args [])) =
   CalcBGRate (\<lambda>url. Inr example_page) example_run (physics (parse_args []))"
proof -
  let ?c = "''?&beamEnergy=11.6&beamCurrent=1&beamEmittance=1e-08&radThickness=0.00075&photonEpeak=8.8&photonNbins=2000&photonEmax=12&photonEmin=3&collimDistance=76&collimDiam=0.005&peakElow=8.4&peakEhigh=9&backElow=0.1&backEhigh=3&endpElow=10&endpEhigh=11.7&run=plot+collimated+beam+rate+spectrum''"
  let ?u = "\<lambda>url. if url = webAddr @ ?c then Inr example_page else (Inl IOError :: pyerror + string)"
  let ?v = "\<lambda>url :: string. (Inr example_page :: pyerror + string)"
  have eq: "?u (webAddr @ ?c) = ?v (webAddr @ ?c)"
    by (simp only: refl if_True)
  have all: "\<forall>u u'. u (webAddr @ ?c) = u' (webAddr @ ?c) \<longrightarrow>
      CalcBGRate u example_run (physics (parse_args [])) =
      CalcBGRate u' example_run (physics (parse_args []))"
    by (rule conjunct2 [OF C2_query_string [OF example_conditions]])
  have "CalcBGRate ?u example_run (physics (parse_args [])) =
      CalcBGRate ?v example_run (physics (parse_args []))"
    by (rule all [rule_format, of ?u ?v, OF eq])
  with example_conditions show ?thesis by (rule conjI)
qed

text \<open>
  The claim as stated, with \<open>%g\<close> for every field, fails for the number of bins: with
  \<open>photonNbins = 1000000\<close> the query string has \<open>&photonNbins=1000000\<close>, where \<open>%g\<close>
  gives \<open>1e+06\<close>.
\<close>

theorem C2_all_g_counterexample:
  "conditions ((physics (parse_args [])) \<lparr>photonNbins := PInt 1000000\<rparr>) example_run =
     Inr ''?&beamEnergy=11.6&beamCurrent=1&beamEmittance=1e-08&radThickness=0.00075&photonEpeak=8.8&photonNbins=1000000&photonEmax=12&photonEmin=3&collimDistance=76&collimDiam=0.005&peakElow=8.4&peakEhigh=9&backElow=0.1&backEhigh=3&endpElow=10&endpEhigh=11.7&run=plot+collimated+beam+rate+spectrum'' \<and>
   percent_g (photonNbins ((physics (parse_args [])) \<lparr>photonNbins := PInt 1000000\<rparr>)) = Inr ''1e+06''"
  by (simp add: example_conditions_Nbins percent_g_def to_double_def float_of_int_small fmt_defs)

lemma store_supplied: "dest \<in> fst ` set opts \<Longrightarrow> \<exists>s. store opts dest d = PStr s"
proof -
  assume "dest \<in> fst ` set opts"
  then have "dest \<in> fst ` set (rev opts)" by simp
  then have "map_of (rev opts) dest \<noteq> None" by (simp add: map_of_eq_None_iff)
  then show ?thesis by (auto simp: store_def)
qed

lemma store_absent: "dest \<notin> fst ` set opts \<Longrightarrow> store opts dest d = d"
proof -
  assume "dest \<notin> fst ` set opts"
  then have "dest \<notin> fst ` set (rev opts)" by simp
  then have "map_of (rev opts) dest = None" by (simp add: map_of_eq_None_iff)
  then show ?thesis by (simp add: store_def)
qed

lemma percent_g_store:
  "percent_g (store opts dest d) = (if dest \<in> fst ` set opts then Inl TypeError else percent_g d)"
proof (cases "dest \<in> fst ` set opts")
  case True
  from store_supplied [OF True] obtain s where "store opts dest d = PStr s" by blast
  with True show ?thesis by (simp add: percent_g_def)
next
  case False
  then show ?thesis by (simp add: store_absent)
qed

lemma percent_i_store:
  "percent_i (store opts dest d) = (if dest \<in> fst ` set opts then Inl TypeError else percent_i d)"
proof (cases "dest \<in> fst ` set opts")
  case True
  from store_supplied [OF True] obtain s where "store opts dest d = PStr s" by blast
  with True show ?thesis by (simp add: percent_i_def)
next
  case False
  then show ?thesis by (simp add: store_absent)
qed

lemma default_percent:
  "percent_g (PFloat (round_double (10 / 10 ^ 9))) = Inr ''1e-08''"
  "percent_i (PInt 2000) = Inr ''2000''"
  "percent_g (PInt 12) = Inr ''12''"
  "percent_g (PInt 3) = Inr ''3''"
  "percent_g (PInt 76) = Inr ''76''"
  "percent_g (PFloat (round_double (84 / 10))) = Inr ''8.4''"
  "percent_g (PInt 9) = Inr ''9''"
  "percent_g (PFloat (round_double (1 / 10))) = Inr ''0.1''"
  "percent_g (PInt 10) = Inr ''10''"
  "percent_g (PFloat (round_double (117 / 10))) = Inr ''11.7''"
  by (simp_all add: percent_g_def percent_i_def to_double_def float_of_int_small default_floats
      fmt_defs)

lemma physics_fields:
  "beamEmittance (physics (parse_args opts)) = store opts ''beamEmittance'' (PFloat (round_double (10 / 10 ^ 9)))"
  "photonNbins (physics (parse_args opts)) = store opts ''photonNbins'' (PInt 2000)"
  "photonEmax (physics (parse_args opts)) = store opts ''photonEmax'' (PInt 12)"
  "photonEmin (physics (parse_args opts)) = store opts ''photonEmin'' (PInt 3)"
  "collimDistance (physics (parse_args opts)) = store opts ''collimDistance'' (PInt 76)"
  "peakElow (physics (parse_args opts)) = store opts ''peakElow'' (PFloat (round_double (84 / 10)))"
  "peakEhigh (physics (parse_args opts)) = store opts ''peakEhigh'' (PInt 9)"
  "backElow (physics (parse_args opts)) = store opts ''backElow'' (PFloat (round_double (1 / 10)))"
  "backEhigh (physics (parse_args opts)) = store opts ''backEhigh'' (PInt 3)"
  "endpElow (physics (parse_args opts)) = store opts ''endpElow'' (PInt 10)"
  "endpEhigh (physics (parse_args opts)) = store opts ''endpEhigh'' (PFloat (round_double (117 / 10)))"
  unfolding parse_args_def by (simp_all only: parsedArgs.simps config.simps)

lemma config_strings:
  "percent_g (beamEmittance (physics (parse_args opts))) =
     (if ''beamEmittance'' \<in> fst ` set opts then Inl TypeError else Inr ''1e-08'')"
  "percent_i (photonNbins (physics (parse_args opts))) =
     (if ''photonNbins'' \<in> fst ` set opts then Inl TypeError else Inr ''2000'')"
  "percent_g (photonEmax (physics (parse_args opts))) =
     (if ''photonEmax'' \<in> fst ` set opts then Inl TypeError else Inr ''12'')"
  "percent_g (photonEmin (physics (parse_args opts))) =
     (if ''photonEmin'' \<in> fst ` set opts then Inl TypeError else Inr ''3'')"
  "percent_g (collimDistance (physics (parse_args opts))) =
     (if ''collimDistance'' \<in> fst ` set opts then Inl TypeError else Inr ''76'')"
  "percent_g (peakElow (physics (parse_args opts))) =
     (if ''peakElow'' \<in> fst ` set opts then Inl TypeError else Inr ''8.4'')"
  "percent_g (peakEhigh (physics (parse_args opts))) =
     (if ''peakEhigh'' \<in> fst ` set opts then Inl TypeError else Inr ''9'')"
  "percent_g (backElow (physics (parse_args opts))) =
     (if ''backElow'' \<in> fst ` set opts then Inl TypeError else Inr ''0.1'')"
  "percent_g (backEhigh (physics (parse_args opts))) =
     (if ''backEhigh'' \<in> fst ` set opts then Inl TypeError else Inr ''3'')"
  "percent_g (endpElow (physics (parse_args opts))) =
     (if ''endpElow'' \<in> fst ` set opts then Inl TypeError else Inr ''10'')"
  "percent_g (endpEhigh (physics (parse_args opts))) =
     (if ''endpEhigh'' \<in> fst ` set opts then Inl TypeError else Inr ''11.7'')"
  by (simp_all only: physics_fields percent_g_store percent_i_store default_percent)

lemma conditions_supplied:
  assumes "dest \<in> set physics_dests" and "dest \<in> fst ` set opts"
  shows "conditions (physics (parse_args opts)) table = Inl TypeError"
proof -
  from assms(1) have "dest = ''beamEmittance'' \<or> dest = ''photonNbins'' \<or> dest = ''photonEmax'' \<or>
    dest = ''photonEmin'' \<or> dest = ''collimDistance'' \<or> dest = ''peakElow'' \<or>
    dest = ''peakEhigh'' \<or> dest = ''backElow'' \<or> dest = ''backEhigh'' \<or>
    dest = ''endpElow'' \<or> dest = ''endpEhigh''"
    by (simp only: physics_dests_def set_simps insert_iff empty_iff simp_thms)
  then show ?thesis
    using assms(2) unfolding conditions_def param_g_def param_i_def config_strings
    by (elim disjE) simp_all
qed

lemma CalcBGRate_supplied:
  assumes "dest \<in> set physics_dests" and "dest \<in> fst ` set opts"
  shows "CalcBGRate u table (physics (parse_args opts)) = Inl TypeError"
  by (simp add: CalcBGRate_def conditions_supplied [OF assms])

lemma main_first_error:
  assumes "open_w env (fileName (parse_args opts))"
    and "BGRate_RCDB_values env (parse_args opts) (minRun (parse_args opts)) (maxRun (parse_args opts)) = Inr (run # rest)"
    and "CalcBGRate (urlopen_read env) run (physics (parse_args opts)) = Inl e"
  shows "main env opts fs = (fs(fileName (parse_args opts) \<mapsto> header), Inl e)"
  using assms by (simp add: main_def Let_def)

lemma example_query:
  assumes "''pathToRCDB'' \<notin> fst ` set extra" "''minRun'' \<notin> fst ` set extra" "''maxRun'' \<notin> fst ` set extra"
  shows "BGRate_RCDB_values example_env (parse_args (example_opts @ extra))
     (minRun (parse_args (example_opts @ extra))) (maxRun (parse_args (example_opts @ extra))) =
     Inr [example_run]"
    and "fileName (parse_args (example_opts @ extra)) = ''BGRateRCDBValue_30000-30010.csv''"
proof -
  have s: "store (example_opts @ extra) ''pathToRCDB'' PNone = PStr ''rcdb.sqlite''"
    "store (example_opts @ extra) ''minRun'' PNone = PStr ''30000''"
    "store (example_opts @ extra) ''maxRun'' PNone = PStr ''30010''"
    using assms by (simp_all add: store_def example_opts_def map_add_def map_of_eq_None_iff [THEN iffD2])
  show "BGRate_RCDB_values example_env (parse_args (example_opts @ extra))
     (minRun (parse_args (example_opts @ extra))) (maxRun (parse_args (example_opts @ extra))) =
     Inr [example_run]"
    by (simp add: BGRate_RCDB_values_def parse_args_def s example_env_def concat_str_def
        py_int_def parse_defs)
  show "fileName (parse_args (example_opts @ extra)) = ''BGRateRCDBValue_30000-30010.csv''"
    by (simp add: fileName_def parse_args_def s py_str_def)
qed


text \<open>
  Claim C10. An option of the command line that is present is stored as the string given, with
  no conversion. When one of the eleven physics options is present, the rate calculation of
  every row ends with a type error, raised by the \<open>%g\<close> or \<open>%i\<close> formatting of the first
  stored string, before anything is fetched; so for every non-empty result set the script
  ends with this type error at the first row, and the output file holds the header only.
  When none of the eleven is present, the eleven defaults are numbers and are formatted.
\<close>

theorem C10_supplied_flag_type_error:
  "(dest \<in> set physics_dests \<and> dest \<in> fst ` set opts \<longrightarrow>
      (\<exists>s. store opts dest dflt = PStr s) \<and>
      conditions (physics (parse_args opts)) run = Inl TypeError \<and>
      CalcBGRate u run (physics (parse_args opts)) = Inl TypeError \<and>
      (\<forall>rest. open_w env (fileName (parse_args opts)) \<and>
         BGRate_RCDB_values env (parse_args opts) (minRun (parse_args opts))
           (maxRun (parse_args opts)) = Inr (run # rest) \<longrightarrow>
         main env opts fs = (fs(fileName (parse_args opts) \<mapsto> header), Inl TypeError))) \<and>
   ((\<forall>d\<in>set physics_dests. d \<notin> fst ` set opts) \<longrightarrow>
      percent_g (beamEmittance (physics (parse_args opts))) = Inr ''1e-08'' \<and>
      percent_i (photonNbins (physics (parse_args opts))) = Inr ''2000'' \<and>
      percent_g (photonEmax (physics (parse_args opts))) = Inr ''12'' \<and>
      percent_g (photonEmin (physics (parse_args opts))) = Inr ''3'' \<and>
      percent_g (collimDistance (physics (parse_args opts))) = Inr ''76'' \<and>
      percent_g (peakElow (physics (parse_args opts))) = Inr ''8.4'' \<and>
      percent_g (peakEhigh (physics (parse_args opts))) = Inr ''9'' \<and>
      percent_g (backElow (physics (parse_args opts))) = Inr ''0.1'' \<and>
      percent_g (backEhigh (physics (parse_args opts))) = Inr ''3'' \<and>
      percent_g (endpElow (physics (parse_args opts))) = Inr ''10'' \<and>
      percent_g (endpEhigh (physics (parse_args opts))) = Inr ''11.7'')"
proof (intro conjI impI)
  assume a: "dest \<in> set physics_dests \<and> dest \<in> fst ` set opts"
  then have d: "dest \<in> set physics_dests" and o: "dest \<in> fst ` set opts" by simp_all
  show "\<exists>s. store opts dest dflt = PStr s" using o by (rule store_supplied)
  show "conditions (physics (parse_args opts)) run = Inl TypeError"
    using d o by (rule conditions_supplied)
  show "CalcBGRate u run (physics (parse_args opts)) = Inl TypeError"
    using d o by (rule CalcBGRate_supplied)
  show "\<forall>rest. open_w env (fileName (parse_args opts)) \<and>
         BGRate_RCDB_values env (parse_args opts) (minRun (parse_args opts))
           (maxRun (parse_args opts)) = Inr (run # rest) \<longrightarrow>
         main env opts fs = (fs(fileName (parse_args opts) \<mapsto> header), Inl TypeError)"
  proof (intro allI impI)
    fix rest
    assume h: "open_w env (fileName (parse_args opts)) \<and>
         BGRate_RCDB_values env (parse_args opts) (minRun (parse_args opts))
           (maxRun (parse_args opts)) = Inr (run # rest)"
    show "main env opts fs = (fs(fileName (parse_args opts) \<mapsto> header), Inl TypeError)"
      by (rule main_first_error [OF conjunct1 [OF h] conjunct2 [OF h] CalcBGRate_supplied [OF d o]])
  qed
next
  assume n: "\<forall>d\<in>set physics_dests. d \<notin> fst ` set opts"
  then have m: "''beamEmittance'' \<notin> fst ` set opts" "''photonNbins'' \<notin> fst ` set opts"
    "''photonEmax'' \<notin> fst ` set opts" "''photonEmin'' \<notin> fst ` set opts"
    "''collimDistance'' \<notin> fst ` set opts" "''peakElow'' \<notin> fst ` set opts"
    "''peakEhigh'' \<notin> fst ` set opts" "''backElow'' \<notin> fst ` set opts"
    "''backEhigh'' \<notin> fst ` set opts" "''endpElow'' \<notin> fst ` set opts"
    "''endpEhigh'' \<notin> fst ` set opts"
    by (simp_all add: physics_dests_def)
  show "percent_g (beamEmittance (physics (parse_args opts))) = Inr ''1e-08''"
    "percent_i (photonNbins (physics (parse_args opts))) = Inr ''2000''"
    "percent_g (photonEmax (physics (parse_args opts))) = Inr ''12''"
    "percent_g (photonEmin (physics (parse_args opts))) = Inr ''3''"
    "percent_g (collimDistance (physics (parse_args opts))) = Inr ''76''"
    "percent_g (peakElow (physics (parse_args opts))) = Inr ''8.4''"
    "percent_g (peakEhigh (physics (parse_args opts))) = Inr ''9''"
    "percent_g (backElow (physics (parse_args opts))) = Inr ''0.1''"
    "percent_g (backEhigh (physics (parse_args opts))) = Inr ''3''"
    "percent_g (endpElow (physics (parse_args opts))) = Inr ''10''"
    "percent_g (endpEhigh (physics (parse_args opts))) = Inr ''11.7''"
    by (simp_all only: config_strings m if_False)
qed

theorem C10_supplied_flag_type_error_witness:
  "main example_env (example_opts @ [(''photonNbins'', ''2000'')]) Map.empty =
     (Map.empty(''BGRateRCDBValue_30000-30010.csv'' \<mapsto> header), Inl TypeError) \<and>
   CalcBGRate (urlopen_read example_env) example_run
     (physics (parse_args (example_opts @ [(''photonNbins'', ''2000'')]))) = Inl TypeError \<and>
   percent_i (photonNbins (physics (parse_args example_opts))) = Inr ''2000''"
proof -
  let ?o = "example_opts @ [(''photonNbins'', ''2000'')]"
  have d: "''photonNbins'' \<in> set physics_dests" by (simp add: physics_dests_def)
  have o: "''photonNbins'' \<in> fst ` set ?o" by simp
  have opn: "open_w example_env (fileName (parse_args ?o))" by (simp add: example_env_def)
  have q: "BGRate_RCDB_values example_env (parse_args ?o) (minRun (parse_args ?o))
      (maxRun (parse_args ?o)) = Inr [example_run]"
    and fn: "fileName (parse_args ?o) = ''BGRateRCDBValue_30000-30010.csv''"
    by (rule example_query; simp)+
  note t = C10_supplied_flag_type_error [where dest = "''photonNbins''" and opts = ?o
      and u = "urlopen_read example_env" and run = example_run and env = example_env
      and fs = Map.empty and dflt = "PInt 2000"]
  note t1 = mp [OF conjunct1 [OF t] conjI [OF d o]]
  have c: "CalcBGRate (urlopen_read example_env) example_run (physics (parse_args ?o)) = Inl TypeError"
    by (rule conjunct1 [OF conjunct2 [OF conjunct2 [OF t1]]])
  have "main example_env ?o Map.empty = (Map.empty(fileName (parse_args ?o) \<mapsto> header), Inl TypeError)"
    by (rule mp [OF spec [OF conjunct2 [OF conjunct2 [OF conjunct2 [OF t1]]]] conjI [OF opn q]])
  then have m: "main example_env ?o Map.empty =
      (Map.empty(''BGRateRCDBValue_30000-30010.csv'' \<mapsto> header), Inl TypeError)"
    by (simp only: fn)
  have n: "\<forall>d\<in>set physics_dests. d \<notin> fst ` set example_opts"
    by (simp add: physics_dests_def example_opts_def)
  note s = C10_supplied_flag_type_error [where opts = example_opts and dest = "''photonNbins''"
      and u = "urlopen_read example_env" and run = example_run and env = example_env
      and fs = Map.empty and dflt = "PInt 2000"]
  have i: "percent_i (photonNbins (physics (parse_args example_opts))) = Inr ''2000''"
    by (rule conjunct1 [OF conjunct2 [OF mp [OF conjunct2 [OF s] n]]])
  from m c i show ?thesis by (intro conjI)
qed

lemma header_line:
  "header = ''run_number,event_count,beam_on_current,beam_energy,coherent_peak,collimator_diameter,radiator_type,BGRate'' @ [newline]"
  "newline \<notin> set ''run_number,event_count,beam_on_current,beam_energy,coherent_peak,collimator_diameter,radiator_type,BGRate''"
  by (simp_all add: header_def newline_def)

lemma empty_query:
  "BGRate_RCDB_values empty_env (parse_args example_opts)
     (minRun (parse_args example_opts)) (maxRun (parse_args example_opts)) = Inr []"
  "fileName (parse_args example_opts) = ''BGRateRCDBValue_30000-30010.csv''"
  "open_w empty_env name"
  by (simp_all add: BGRate_RCDB_values_def parse_args_def store_def example_opts_def empty_env_def
      example_env_def concat_str_def py_int_def parse_defs fileName_def py_str_def)

text \<open>
  Claim C7. When the output file can be opened and the query over the run range returns no
  row, the script ends normally, with exit status 0, and the output file holds the header
  and nothing else: one line, ended by the only newline of the file.
\<close>

theorem C7_empty_result_set:
  assumes "open_w env (fileName (parse_args opts))"
    and "BGRate_RCDB_values env (parse_args opts) (minRun (parse_args opts))
           (maxRun (parse_args opts)) = Inr []"
  shows "main env opts fs = (fs(fileName (parse_args opts) \<mapsto> header), Inr ()) \<and>
     exit_status (snd (main env opts fs)) = 0 \<and>
     fst (main env opts fs) (fileName (parse_args opts)) =
       Some (''run_number,event_count,beam_on_current,beam_energy,coherent_peak,collimator_diameter,radiator_type,BGRate'' @ [newline]) \<and>
     newline \<notin> set ''run_number,event_count,beam_on_current,beam_energy,coherent_peak,collimator_diameter,radiator_type,BGRate''"
proof -
  have m: "main env opts fs = (fs(fileName (parse_args opts) \<mapsto> header), Inr ())"
    using assms by (simp add: main_def Let_def)
  have e: "exit_status (snd (main env opts fs)) = 0"
    by (simp only: m snd_conv) (simp add: exit_status_def)
  have f: "fst (main env opts fs) (fileName (parse_args opts)) =
       Some (''run_number,event_count,beam_on_current,beam_energy,coherent_peak,collimator_diameter,radiator_type,BGRate'' @ [newline])"
    by (simp only: m fst_conv fun_upd_same header_line(1))
  from m e f header_line(2) show ?thesis by (intro conjI)
qed

theorem C7_empty_result_set_witness:
  "main empty_env example_opts Map.empty =
     (Map.empty(''BGRateRCDBValue_30000-30010.csv'' \<mapsto> header), Inr ()) \<and>
   exit_status (snd (main empty_env example_opts Map.empty)) = 0"
proof -
  note t = C7_empty_result_set [OF empty_query(3) empty_query(1), where fs = Map.empty]
  have m: "main empty_env example_opts Map.empty =
     (Map.empty(fileName (parse_args example_opts) \<mapsto> header), Inr ())"
    by (rule conjunct1 [OF t])
  have e: "exit_status (snd (main empty_env example_opts Map.empty)) = 0"
    by (rule conjunct1 [OF conjunct2 [OF t]])
  from m [unfolded empty_query(2)] e show ?thesis by (intro conjI)
qed

text \<open>
  Claim C9. The name of the output file is \<open>BGRateRCDBValue_\<close>, the text of the minimum run,
  \<open>-\<close>, the text of the maximum run, \<open>.csv\<close>: two command lines with the same two options
  name the same file. When the file can be opened, what the script leaves in it does not
  depend on what the files held before, and every other file is untouched. Running the
  script again, on the files the first run left, with the same command line, database and
  rate service, ends the same way and leaves the same files.
\<close>

theorem C9_output_file:
  "(minRun (parse_args opts) = PStr a \<and> maxRun (parse_args opts) = PStr b \<longrightarrow>
      fileName (parse_args opts) = ''BGRateRCDBValue_'' @ a @ ''-'' @ b @ ''.csv'') \<and>
   (minRun (parse_args opts) = minRun (parse_args opts') \<and>
    maxRun (parse_args opts) = maxRun (parse_args opts') \<longrightarrow>
      fileName (parse_args opts) = fileName (parse_args opts')) \<and>
   (open_w env (fileName (parse_args opts)) \<longrightarrow>
      (\<exists>content. fst (main env opts fs) = fs(fileName (parse_args opts) \<mapsto> content) \<and>
                 fst (main env opts fs') = fs'(fileName (parse_args opts) \<mapsto> content)) \<and>
      snd (main env opts fs) = snd (main env opts fs')) \<and>
   main env opts (fst (main env opts fs)) = main env opts fs"
proof (intro conjI impI)
  assume "minRun (parse_args opts) = PStr a \<and> maxRun (parse_args opts) = PStr b"
  then show "fileName (parse_args opts) = ''BGRateRCDBValue_'' @ a @ ''-'' @ b @ ''.csv''"
    by (simp add: fileName_def py_str_def)
next
  assume "minRun (parse_args opts) = minRun (parse_args opts') \<and>
    maxRun (parse_args opts) = maxRun (parse_args opts')"
  then show "fileName (parse_args opts) = fileName (parse_args opts')"
    by (simp add: fileName_def)
next
  assume o: "open_w env (fileName (parse_args opts))"
  show "\<exists>content. fst (main env opts fs) = fs(fileName (parse_args opts) \<mapsto> content) \<and>
                 fst (main env opts fs') = fs'(fileName (parse_args opts) \<mapsto> content)"
    using o by (auto simp: main_def Let_def split: sum.splits prod.splits)
  show "snd (main env opts fs) = snd (main env opts fs')"
    using o by (auto simp: main_def Let_def split: sum.splits prod.splits)
next
  show "main env opts (fst (main env opts fs)) = main env opts fs"
    by (auto simp: main_def Let_def split: sum.splits prod.splits)
qed

theorem C9_output_file_witness:
  "fileName (parse_args example_opts) = ''BGRateRCDBValue_30000-30010.csv'' \<and>
   snd (main example_env example_opts Map.empty) =
     snd (main example_env example_opts [''BGRateRCDBValue_30000-30010.csv'' \<mapsto> ''old'']) \<and>
   (\<exists>content. fst (main example_env example_opts Map.empty) =
                 Map.empty(fileName (parse_args example_opts) \<mapsto> content) \<and>
               fst (main example_env example_opts [''BGRateRCDBValue_30000-30010.csv'' \<mapsto> ''old'']) =
                 [''BGRateRCDBValue_30000-30010.csv'' \<mapsto> ''old''](fileName (parse_args example_opts) \<mapsto> content))"
proof -
  have mm: "minRun (parse_args example_opts) = PStr ''30000'' \<and>
      maxRun (parse_args example_opts) = PStr ''30010''"
    by (simp add: parse_args_def store_def example_opts_def)
  have o: "open_w example_env (fileName (parse_args example_opts))"
    by (simp add: example_env_def)
  note t = C9_output_file [where opts = example_opts and opts' = example_opts
      and a = "''30000''" and b = "''30010''" and env = example_env and fs = Map.empty
      and fs' = "[''BGRateRCDBValue_30000-30010.csv'' \<mapsto> ''old'']"]
  have fn: "fileName (parse_args example_opts) = ''BGRateRCDBValue_'' @ ''30000'' @ ''-'' @ ''30010'' @ ''.csv''"
    by (rule mp [OF conjunct1 [OF t] mm])
  have fn': "fileName (parse_args example_opts) = ''BGRateRCDBValue_30000-30010.csv''"
    using fn by simp
  note t3 = mp [OF conjunct1 [OF conjunct2 [OF conjunct2 [OF t]]] o]
  from fn' conjunct2 [OF t3] conjunct1 [OF t3] show ?thesis by (intro conjI)
qed

text \<open>Facts about the matcher and about \<open>float\<close> of a run of digits.\<close>

lemma takeWhile_run:
  assumes "\<forall>x\<in>set t. P x" and "r = [] \<or> \<not> P (hd r)"
  shows "takeWhile P (t @ r) = t"
proof (cases r)
  case Nil
  then show ?thesis using assms(1) by simp
next
  case (Cons c r')
  then have "\<not> P c" using assms(2) by simp
  then show ?thesis using assms(1) Cons by (simp add: takeWhile_append2)
qed

lemma match_group_run:
  assumes "d \<noteq> []" and "\<forall>x\<in>set d. atom_ok a x" and "r = [] \<or> \<not> atom_ok a (hd r)"
  shows "match_here [GroupPlus a] (d @ r) = Some d"
proof -
  obtain n where n: "length d = Suc n" using assms(1) by (cases d) simp_all
  have "takeWhile (atom_ok a) (d @ r) = d" using assms(2,3) by (rule takeWhile_run)
  then have "match_here [GroupPlus a] (d @ r) = match_plus True [] (d @ r) (Suc n)"
    by (simp add: n)
  also have "\<dots> = Some (take (Suc n) (d @ r))" by simp
  also have "take (Suc n) (d @ r) = d" using n by simp
  finally show ?thesis .
qed

lemma search_first: "match_here ps s = Some g \<Longrightarrow> search ps s = Some g"
  by (cases s) simp_all

lemma search_skip: "match_here ps (c # t) = None \<Longrightarrow> search ps (c # t) = search ps t"
  by simp

lemma match_literal:
  "match_here (map (\<lambda>c. One (Lit c)) m @ ps) s =
     (if prefix m s then match_here ps (drop (length m) s) else None)"
proof (induction m arbitrary: s)
  case Nil
  then show ?case by simp
next
  case (Cons c m)
  show ?case
  proof (cases s)
    case Nil
    then show ?thesis by simp
  next
    case (Cons x xs)
    then show ?thesis using Cons.IH [of xs] by simp
  qed
qed






lemma round_double_0 [simp]: "round_double 0 = Fin 0"
  by (simp add: round_double_def)








lemma rstrip_suffix:
  assumes "s \<noteq> []" and "last s \<notin> set chars" and "\<forall>c\<in>set t. c \<in> set chars"
  shows "rstrip chars (s @ t) = s"
proof -
  have "dropWhile (\<lambda>c. c \<in> set chars) (rev t @ rev s) = dropWhile (\<lambda>c. c \<in> set chars) (rev s)"
    by (rule dropWhile_append2) (simp add: assms(3))
  moreover have "dropWhile (\<lambda>c. c \<in> set chars) (rev s) = rev s"
    using assms(1,2) by (cases s rule: rev_cases) simp_all
  ultimately show ?thesis by (simp add: rstrip_def)
qed

lemma collimDiam_string:
  assumes "5 < length table" and "table ! 5 = PStr s"
  shows "collimDiam table =
     bind_err (float_of_str (rstrip ''mm hole'' s)) (\<lambda>x. Inr (fmul x (pow10_neg 3)))"
  using assms by (simp add: collimDiam_def getitem_def rstrip_method_def)

lemma float_5: "float_of_str ''5'' = Inr (Fin 5)"
  by (simp add: parse_defs dbl_defs)

lemma fmul_5: "fmul (Fin 5) (pow10_neg 3) = Fin (5764607523034235 / 2 ^ 60)"
  by (simp add: pow10_neg_3 dbl_defs)

lemma example_conditions_5mm:
  "conditions (physics (parse_args [])) (example_run[5 := PStr ''5mm hole'']) =
     conditions (physics (parse_args [])) example_run"
proof -
  have "beamCurrent (example_run[5 := PStr ''5mm hole'']) = beamCurrent example_run"
    "beamEnergy (example_run[5 := PStr ''5mm hole'']) = beamEnergy example_run"
    "photonEpeak (example_run[5 := PStr ''5mm hole'']) = photonEpeak example_run"
    "radThickness (example_run[5 := PStr ''5mm hole'']) = radThickness example_run"
    "collimDiam (example_run[5 := PStr ''5mm hole'']) = collimDiam example_run"
    by (simp_all add: beamCurrent_def beamEnergy_def photonEpeak_def radThickness_def
        collimDiam_def example_run_def getitem_def rstrip_method_def rstrip_def)
  then show ?thesis by (simp only: conditions_def)
qed

text \<open>
  Claim C4. When the collimator diameter (field 5) is a text \<open>s\<close> followed by the unit, as
  \<open> mm hole\<close> or \<open>mm hole\<close> (or by any run of the characters of \<open>mm hole\<close>), where \<open>s\<close> does not
  itself end with one of these characters, as no decimal number does, the unit is stripped
  and what remains is \<open>s\<close>: the diameter is \<open>float(s)\<close> multiplied by \<open>10**(-3)\<close>, and it fails
  exactly when \<open>float(s)\<close> does.
\<close>

theorem C4_collimator_parsing:
  assumes "5 < length table" and "table ! 5 = PStr (s @ unit_text)"
    and "\<forall>c\<in>set unit_text. c \<in> set ''mm hole''"
    and "s \<noteq> []" and "last s \<notin> set ''mm hole''"
  shows "rstrip ''mm hole'' (s @ unit_text) = s \<and>
     collimDiam table = bind_err (float_of_str s) (\<lambda>x. Inr (fmul x (pow10_neg 3))) \<and>
     (\<forall>v. float_of_str s = Inr v \<longrightarrow> collimDiam table = Inr (fmul v (pow10_neg 3)))"
proof -
  have r: "rstrip ''mm hole'' (s @ unit_text) = s"
    by (rule rstrip_suffix [OF assms(4,5,3)])
  have c: "collimDiam table = bind_err (float_of_str s) (\<lambda>x. Inr (fmul x (pow10_neg 3)))"
    by (simp only: collimDiam_string [OF assms(1,2)] r)
  have "\<forall>v. float_of_str s = Inr v \<longrightarrow> collimDiam table = Inr (fmul v (pow10_neg 3))"
    by (simp add: c)
  with r c show ?thesis by (intro conjI)
qed

theorem C4_collimator_parsing_witness:
  "collimDiam example_run = Inr (Fin (5764607523034235 / 2 ^ 60)) \<and>
   collimDiam (example_run[5 := PStr ''5mm hole'']) = Inr (Fin (5764607523034235 / 2 ^ 60)) \<and>
   round_double (5 / 1000) = Fin (5764607523034235 / 2 ^ 60) \<and>
   format_g False 6 (Fin (5764607523034235 / 2 ^ 60)) = ''0.005'' \<and>
   conditions (physics (parse_args [])) (example_run[5 := PStr ''5mm hole'']) =
     Inr ''?&beamEnergy=11.6&beamCurrent=1&beamEmittance=1e-08&radThickness=0.00075&photonEpeak=8.8&photonNbins=2000&photonEmax=12&photonEmin=3&collimDistance=76&collimDiam=0.005&peakElow=8.4&peakEhigh=9&backElow=0.1&backEhigh=3&endpElow=10&endpEhigh=11.7&run=plot+collimated+beam+rate+spectrum''"
proof -
  have l: "5 < length example_run" "5 < length (example_run[5 := PStr ''5mm hole''])"
    by (simp_all add: example_run_def)
  have e1: "example_run ! 5 = PStr (''5'' @ '' mm hole'')"
    by (simp add: example_run_def)
  have e2: "example_run[5 := PStr ''5mm hole''] ! 5 = PStr (''5'' @ ''mm hole'')"
    by (simp add: example_run_def)
  have u: "\<forall>c\<in>set '' mm hole''. c \<in> set ''mm hole''" "\<forall>c\<in>set ''mm hole''. c \<in> set ''mm hole''"
    "''5'' \<noteq> []" "last ''5'' \<notin> set ''mm hole''"
    by simp_all
  note a = C4_collimator_parsing [OF l(1) e1 u(1,3,4)]
  note b = C4_collimator_parsing [OF l(2) e2 u(2,3,4)]
  have a1: "collimDiam example_run = Inr (Fin (5764607523034235 / 2 ^ 60))"
    using mp [OF spec [OF conjunct2 [OF conjunct2 [OF a]]] float_5] by (simp only: fmul_5)
  have b1: "collimDiam (example_run[5 := PStr ''5mm hole'']) = Inr (Fin (5764607523034235 / 2 ^ 60))"
    using mp [OF spec [OF conjunct2 [OF conjunct2 [OF b]]] float_5] by (simp only: fmul_5)
  have r: "round_double (5 / 1000) = Fin (5764607523034235 / 2 ^ 60)"
    by (simp add: dbl_defs)
  have c: "conditions (physics (parse_args [])) (example_run[5 := PStr ''5mm hole'']) =
     Inr ''?&beamEnergy=11.6&beamCurrent=1&beamEmittance=1e-08&radThickness=0.00075&photonEpeak=8.8&photonNbins=2000&photonEmax=12&photonEmin=3&collimDistance=76&collimDiam=0.005&peakElow=8.4&peakEhigh=9&backElow=0.1&backEhigh=3&endpElow=10&endpEhigh=11.7&run=plot+collimated+beam+rate+spectrum''"
    by (simp only: example_conditions_5mm example_conditions)
  from a1 b1 r g_0005 c show ?thesis by (intro conjI)
qed

lemma flux_no_match: "\<not> prefix marker s \<Longrightarrow> match_here flux_re s = None"
  by (simp add: flux_re_def match_literal)

lemma flux_match:
  assumes "num \<noteq> []" and "\<forall>c\<in>set num. c \<in> set ''0123456789.E+-''"
    and "rest = [] \<or> hd rest \<notin> set ''0123456789.E+-''"
  shows "match_here flux_re (marker @ num @ rest) = Some num"
proof -
  have "match_here [GroupPlus (Cls ''0123456789.E+-'')] (num @ rest) = Some num"
    by (rule match_group_run) (use assms in simp_all)
  then show ?thesis by (simp add: flux_re_def match_literal)
qed

lemma search_skip_prefix:
  "\<forall>k<length pre. match_here ps (drop k (pre @ s)) = None \<Longrightarrow> search ps (pre @ s) = search ps s"
proof (induction pre)
  case Nil
  then show ?case by simp
next
  case (Cons c p)
  from Cons.prems [rule_format, of 0] have 0: "match_here ps (c # p @ s) = None" by simp
  have "\<forall>k<length p. match_here ps (drop k (p @ s)) = None"
  proof (intro allI impI)
    fix k assume "k < length p"
    then have "Suc k < length (c # p)" by simp
    from Cons.prems [rule_format, OF this] show "match_here ps (drop k (p @ s)) = None" by simp
  qed
  then have "search ps (p @ s) = search ps s" by (rule Cons.IH)
  then show ?case using 0 by simp
qed

lemma flux_search:
  assumes "\<forall>k<length pre. \<not> prefix marker (drop k (pre @ marker @ num @ rest))"
    and "num \<noteq> []" and "\<forall>c\<in>set num. c \<in> set ''0123456789.E+-''"
    and "rest = [] \<or> hd rest \<notin> set ''0123456789.E+-''"
  shows "search flux_re (pre @ marker @ num @ rest) = Some num"
proof -
  have "\<forall>k<length pre. match_here flux_re (drop k (pre @ marker @ num @ rest)) = None"
    using assms(1) by (simp add: flux_no_match)
  then have "search flux_re (pre @ marker @ num @ rest) = search flux_re (marker @ num @ rest)"
    by (rule search_skip_prefix)
  also have "\<dots> = Some num"
    by (rule search_first) (rule flux_match [OF assms(2-4)])
  finally show ?thesis .
qed

lemma float_123E05: "float_of_str ''1.23E+05'' = Inr (Fin 123000)"
  by (simp add: parse_defs dbl_defs)

lemma fmul_123000: "fmul (Fin 123000) (pow10_neg 9) = Fin (2268949521066275 / 2 ^ 64)"
  by (simp add: pow10_neg_9 dbl_defs)

lemma float_123: "float_of_str ''1.23'' = Inr (Fin (2769713770832855 / 2 ^ 51))"
  by (simp add: parse_defs dbl_defs)

lemma fmul_123: "fmul (Fin (2769713770832855 / 2 ^ 51)) (pow10_neg 9) = Fin (743489379062997 / 2 ^ 79)"
  by (simp add: pow10_neg_9 dbl_defs)

lemma g_0000123: "format_g False 6 (Fin (2268949521066275 / 2 ^ 64)) = ''0.000123''"
  by (simp add: fmt_defs)

lemma example_page_split:
  "example_page = ''<html>'' @ marker @ ''1.23E+05'' @ '' </b></td></tr>''"
  by (simp add: example_page_def marker_def)

lemma example_page_first:
  "\<forall>k<length ''<html>''. \<not> prefix marker (drop k (''<html>'' @ marker @ ''1.23E+05'' @ '' </b></td></tr>''))"
proof (intro allI impI)
  fix k :: nat
  assume "k < length ''<html>''"
  then have "k = 0 \<or> k = 1 \<or> k = 2 \<or> k = 3 \<or> k = 4 \<or> k = 5" by (simp add: less_Suc_eq) arith
  then show "\<not> prefix marker (drop k (''<html>'' @ marker @ ''1.23E+05'' @ '' </b></td></tr>''))"
    by (elim disjE) (simp_all add: marker_def)
qed

text \<open>
  Claim C1, as amended. When the query string is built and the page fetched at its URL holds
  the marker \<open><tr><td><b> Endpoint tagged flux sum is \<close>, its first occurrence being followed
  by a non-empty longest run \<open>num\<close> of the characters \<open>0\<close> to \<open>9\<close>, \<open>.\<close>, \<open>E\<close>, \<open>+\<close> and \<open>-\<close>, then
  \<open>num\<close> is what is extracted, and the result is \<open>float(num)\<close> multiplied by \<open>10**(-9)\<close>; it
  fails exactly when \<open>float(num)\<close> does.
\<close>

theorem C1_flux_extraction:
  assumes "conditions cfg table = Inr conds"
    and "u (webAddr @ conds) = Inr (pre @ marker @ num @ rest)"
    and "\<forall>k<length pre. \<not> prefix marker (drop k (pre @ marker @ num @ rest))"
    and "num \<noteq> []" and "\<forall>c\<in>set num. c \<in> set ''0123456789.E+-''"
    and "rest = [] \<or> hd rest \<notin> set ''0123456789.E+-''"
  shows "search flux_re (pre @ marker @ num @ rest) = Some num \<and>
     CalcBGRate u table cfg = bind_err (float_of_str num) (\<lambda>x. Inr (fmul x (pow10_neg 9))) \<and>
     (\<forall>x. float_of_str num = Inr x \<longrightarrow> CalcBGRate u table cfg = Inr (fmul x (pow10_neg 9)))"
proof -
  have s: "search flux_re (pre @ marker @ num @ rest) = Some num"
    by (rule flux_search [OF assms(3-6)])
  have c: "CalcBGRate u table cfg = bind_err (float_of_str num) (\<lambda>x. Inr (fmul x (pow10_neg 9)))"
    by (simp only: CalcBGRate_fetch [OF assms(1)] assms(2) s group1_def option.case bind_err_Inr)
  have "\<forall>x. float_of_str num = Inr x \<longrightarrow> CalcBGRate u table cfg = Inr (fmul x (pow10_neg 9))"
    by (simp add: c)
  with s c show ?thesis by (intro conjI)
qed

theorem C1_flux_extraction_witness:
  "search flux_re example_page = Some ''1.23E+05'' \<and>
   CalcBGRate (\<lambda>url. Inr example_page) example_run (physics (parse_args [])) =
     Inr (Fin (2268949521066275 / 2 ^ 64)) \<and>
   round_double (123 / 1000000) = Fin (2268949521066275 / 2 ^ 64) \<and>
   format_g False 6 (Fin (2268949521066275 / 2 ^ 64)) = ''0.000123''"
proof -
  have f: "(\<lambda>url. Inr example_page :: pyerror + string)
      (webAddr @ ''?&beamEnergy=11.6&beamCurrent=1&beamEmittance=1e-08&radThickness=0.00075&photonEpeak=8.8&photonNbins=2000&photonEmax=12&photonEmin=3&collimDistance=76&collimDiam=0.005&peakElow=8.4&peakEhigh=9&backElow=0.1&backEhigh=3&endpElow=10&endpEhigh=11.7&run=plot+collimated+beam+rate+spectrum'') =
      Inr (''<html>'' @ marker @ ''1.23E+05'' @ '' </b></td></tr>'')"
    by (simp only: example_page_split)
  have n: "''1.23E+05'' \<noteq> []" "\<forall>c\<in>set ''1.23E+05''. c \<in> set ''0123456789.E+-''"
    "'' </b></td></tr>'' = [] \<or> hd '' </b></td></tr>'' \<notin> set ''0123456789.E+-''"
    by simp_all
  note t = C1_flux_extraction [OF example_conditions f example_page_first n]
  have a: "search flux_re example_page = Some ''1.23E+05''"
    using conjunct1 [OF t] by (simp only: example_page_split)
  have b: "CalcBGRate (\<lambda>url. Inr example_page) example_run (physics (parse_args [])) =
     Inr (Fin (2268949521066275 / 2 ^ 64))"
    using mp [OF spec [OF conjunct2 [OF conjunct2 [OF t]]] float_123E05] by (simp only: fmul_123000)
  have r: "round_double (123 / 1000000) = Fin (2268949521066275 / 2 ^ 64)"
    by (simp add: dbl_defs)
  from a b r g_0000123 show ?thesis by (intro conjI)
qed

text \<open>
  The claim as stated fails for a body that holds \<open>Endpoint tagged flux sum is 1.23E+05\<close>
  without the table cells that begin the marker: nothing matches and the calculation ends
  with an attribute error. It also fails for a number in exponential notation with a small
  \<open>e\<close>: after the full marker, \<open>1.23e+05\<close> is read as \<open>1.23\<close>.
\<close>

theorem C1_marker_counterexample:
  "CalcBGRate (\<lambda>url. Inr ''Endpoint tagged flux sum is 1.23E+05'') example_run
     (physics (parse_args [])) = Inl AttributeError \<and>
   CalcBGRate (\<lambda>url. Inr ''<tr><td><b> Endpoint tagged flux sum is 1.23e+05'') example_run
     (physics (parse_args [])) = Inr (Fin (743489379062997 / 2 ^ 79)) \<and>
   Fin (743489379062997 / 2 ^ 79) \<noteq> Fin (2268949521066275 / 2 ^ 64)"
proof -
  have s1: "search flux_re ''Endpoint tagged flux sum is 1.23E+05'' = None"
    by (simp add: flux_re_def marker_def)
  have s2: "search flux_re ''<tr><td><b> Endpoint tagged flux sum is 1.23e+05'' = Some ''1.23''"
    by (simp add: flux_re_def marker_def)
  have a: "CalcBGRate (\<lambda>url. Inr ''Endpoint tagged flux sum is 1.23E+05'') example_run
     (physics (parse_args [])) = Inl AttributeError"
    by (simp only: CalcBGRate_fetch [OF example_conditions] s1 group1_def option.case
        bind_err_Inr bind_err_Inl)
  have b: "CalcBGRate (\<lambda>url. Inr ''<tr><td><b> Endpoint tagged flux sum is 1.23e+05'') example_run
     (physics (parse_args [])) = Inr (Fin (743489379062997 / 2 ^ 79))"
    by (simp only: CalcBGRate_fetch [OF example_conditions] s2 group1_def option.case
        bind_err_Inr float_123 fmul_123)
  have c: "Fin (743489379062997 / 2 ^ 79) \<noteq> Fin (2268949521066275 / 2 ^ 64)"
    by simp
  from a b c show ?thesis by (intro conjI)
qed

end
